theory Spec2Isabelle
  imports Main
begin

section \<open>Python values\<close>

text \<open>
  The ledger is a JSON file, so a field of a row holds whatever JSON scalar the file has
  there. Nested lists, nested objects and floats inside a field are not modelled; a row
  that is not a JSON object at all is (\<open>Non_dict\<close> below), because calling
  \<^verbatim>\<open>row.get\<close> on it raises.
\<close>

datatype pyval = PNone | PBool bool | PInt int | PStr string

datatype pyerr = AttributeError | TelegramError

text \<open>Truthiness, as \<^verbatim>\<open>if x\<close>, \<^verbatim>\<open>x or y\<close> and \<^verbatim>\<open>all([...])\<close> test it.\<close>

fun truthy :: "pyval \<Rightarrow> bool" where
  "truthy PNone = False"
| "truthy (PBool b) = b"
| "truthy (PInt n) = (n \<noteq> 0)"
| "truthy (PStr s) = (s \<noteq> [])"

definition py_or :: "pyval \<Rightarrow> pyval \<Rightarrow> pyval" where
  "py_or x y = (if truthy x then x else y)"

text \<open>\<^verbatim>\<open>str(n)\<close> of an integer: its decimal digits, with a minus sign when negative.\<close>

definition digit_char :: "nat \<Rightarrow> char" where
  "digit_char d = ''0123456789'' ! d"

fun digits :: "nat \<Rightarrow> string" where
  "digits n = (if n < 10 then [digit_char n] else digits (n div 10) @ [digit_char (n mod 10)])"

declare digits.simps [simp del]

definition str_int :: "int \<Rightarrow> string" where
  "str_int i = (if i < 0 then CHR ''-'' # digits (nat (- i)) else digits (nat i))"

fun py_str :: "pyval \<Rightarrow> string" where
  "py_str PNone = ''None''"
| "py_str (PBool b) = (if b then ''True'' else ''False'')"
| "py_str (PInt n) = str_int n"
| "py_str (PStr s) = s"

text \<open>
  A Python dict with string keys, in insertion order. \<open>dget\<close> is \<^verbatim>\<open>d.get(k)\<close> (None
  for a missing key), \<open>dset\<close> is \<^verbatim>\<open>d[k] = v\<close> (an existing key keeps its place, a new
  one goes last).
\<close>

type_synonym pydict = "(string \<times> pyval) list"

definition dget :: "pydict \<Rightarrow> string \<Rightarrow> pyval" where
  "dget d k = (case map_of d k of None \<Rightarrow> PNone | Some v \<Rightarrow> v)"

fun dset :: "'k \<Rightarrow> 'v \<Rightarrow> ('k \<times> 'v) list \<Rightarrow> ('k \<times> 'v) list" where
  "dset k v [] = [(k, v)]"
| "dset k v (p # d) = (if fst p = k then (k, v) # d else p # dset k v d)"

definition opt_val :: "string option \<Rightarrow> pyval" where
  "opt_val x = (case x of None \<Rightarrow> PNone | Some s \<Rightarrow> PStr s)"

section \<open>Library functions and configuration\<close>

text \<open>
  Instants are microseconds since the epoch. A parsed timestamp is naive (wall-clock
  microseconds, no offset) or aware (an instant). The functions of the standard library
  and of pytz that the code calls are parameters of the model:
  \<^item> \<open>isoformat t\<close>: \<^verbatim>\<open>datetime.isoformat()\<close> of the aware datetime at instant \<open>t\<close>
    in the configured zone;
  \<^item> \<open>fromisoformat s\<close>: \<^verbatim>\<open>datetime.fromisoformat(s)\<close>, \<open>None\<close> where it raises;
  \<^item> \<open>localize w\<close>: the instant of \<^verbatim>\<open>TIMEZONE.localize\<close> at a naive value, \<open>None\<close>
    where it raises;
  \<^item> \<open>int_of_str s\<close>: \<^verbatim>\<open>int(s)\<close>, \<open>None\<close> where it raises ValueError;
  \<^item> \<open>strip s\<close>: \<^verbatim>\<open>s.strip()\<close>.
\<close>

datatype datetime = Naive int | Aware int

record pylib =
  isoformat :: "int \<Rightarrow> string"
  fromisoformat :: "string \<Rightarrow> datetime option"
  localize :: "int \<Rightarrow> int option"
  int_of_str :: "string \<Rightarrow> int option"
  strip :: "string \<Rightarrow> string"

definition no_username :: string where
  "no_username = [CHR 0xD0, CHR 0xBD, CHR 0xD0, CHR 0xB5, CHR 0xD0, CHR 0xBC, CHR 0xD0, CHR 0xB0, CHR 0xD1, CHR 0x94]"

definition TARIFFS :: "(string \<times> string) list" where
  "TARIFFS =
    [(''1_day'', ''1 '' @ [CHR 0xD0, CHR 0xB4, CHR 0xD0, CHR 0xB5, CHR 0xD0, CHR 0xBD, CHR 0xD1, CHR 0x8C]
        @ '' '' @ [CHR 0xE2, CHR 0x80, CHR 0x94] @ '' 20'' @ [CHR 0xE2, CHR 0x82, CHR 0xB4]),
     (''30_days'', ''30 '' @ [CHR 0xD0, CHR 0xB4, CHR 0xD0, CHR 0xBD, CHR 0xD1, CHR 0x96, CHR 0xD0, CHR 0xB2]
        @ '' '' @ [CHR 0xE2, CHR 0x80, CHR 0x94] @ '' 70'' @ [CHR 0xE2, CHR 0x82, CHR 0xB4]),
     (''90_days'', ''90 '' @ [CHR 0xD0, CHR 0xB4, CHR 0xD0, CHR 0xBD, CHR 0xD1, CHR 0x96, CHR 0xD0, CHR 0xB2]
        @ '' '' @ [CHR 0xE2, CHR 0x80, CHR 0x94] @ '' 150'' @ [CHR 0xE2, CHR 0x82, CHR 0xB4]),
     (''180_days'', ''180 '' @ [CHR 0xD0, CHR 0xB4, CHR 0xD0, CHR 0xBD, CHR 0xD1, CHR 0x96, CHR 0xD0, CHR 0xB2]
        @ '' '' @ [CHR 0xE2, CHR 0x80, CHR 0x94] @ '' 190'' @ [CHR 0xE2, CHR 0x82, CHR 0xB4]),
     (''forever'', [CHR 0xD0, CHR 0x9D, CHR 0xD0, CHR 0xB0, CHR 0xD0, CHR 0xB7, CHR 0xD0, CHR 0xB0, CHR 0xD0, CHR 0xB2,
          CHR 0xD0, CHR 0xB6, CHR 0xD0, CHR 0xB4, CHR 0xD0, CHR 0xB8]
        @ '' '' @ [CHR 0xE2, CHR 0x80, CHR 0x94] @ '' 250'' @ [CHR 0xE2, CHR 0x82, CHR 0xB4])]"

definition AWAITING_FIO :: string where "AWAITING_FIO = ''awaiting_fio''"
definition AWAITING_DOB :: string where "AWAITING_DOB = ''awaiting_dob''"
definition AWAITING_PHOTO :: string where "AWAITING_PHOTO = ''awaiting_photo''"

definition now_iso_with_tz :: "pylib \<Rightarrow> int \<Rightarrow> string" where
  "now_iso_with_tz L now = isoformat L now"

text \<open>
  \<open>parse_iso_datetime\<close> is handed \<^verbatim>\<open>row.get("created_at")\<close>, which need not be a
  string: \<^verbatim>\<open>fromisoformat\<close> raises TypeError on anything else. Every exception ends in
  the handler that returns None.
\<close>

definition parse_iso_datetime :: "pylib \<Rightarrow> pyval \<Rightarrow> int option" where
  "parse_iso_datetime L s =
    (case s of
       PStr x \<Rightarrow>
         (case fromisoformat L x of
            None \<Rightarrow> None
          | Some (Naive w) \<Rightarrow> localize L w
          | Some (Aware t) \<Rightarrow> Some t)
     | _ \<Rightarrow> None)"

section \<open>The orders file\<close>

text \<open>
  What \<^verbatim>\<open>DATA_FILE\<close> holds, as far as \<^verbatim>\<open>load_orders\<close> can tell: no file, a JSON list,
  JSON that is not a list, or text that \<^verbatim>\<open>json.load\<close> rejects (an empty or cut-off
  file is of this kind). A row of the list is a JSON object or something else.
\<close>

datatype row = Dict pydict | Non_dict

datatype file_content = Missing | Json_list "row list" | Json_other | Malformed

fun load_orders :: "file_content \<Rightarrow> row list" where
  "load_orders Missing = []"
| "load_orders (Json_list data) = data"
| "load_orders Json_other = []"
| "load_orders Malformed = []"

text \<open>
  \<^verbatim>\<open>save_orders\<close> opens the file with mode "w" and dumps into it. What the file system
  does is an input: the write goes through, \<^verbatim>\<open>open\<close> raises (nothing is touched), or
  the file is opened, which truncates it, and the dump raises before the text is
  complete.
\<close>

datatype save_fault = No_fault | Open_fails | Dump_fails

fun save_orders :: "save_fault \<Rightarrow> file_content \<Rightarrow> row list \<Rightarrow> file_content \<times> bool" where
  "save_orders No_fault disk orders = (Json_list orders, True)"
| "save_orders Open_fails disk orders = (disk, False)"
| "save_orders Dump_fails disk orders = (Malformed, False)"

text \<open>The test of both reverse scans: \<^verbatim>\<open>str(row.get("client_id")) == cid\<close>.\<close>

definition client_is :: "string \<Rightarrow> pydict \<Rightarrow> bool" where
  "client_is cid d = (py_str (dget d ''client_id'') = cid)"

text \<open>The loop of \<^verbatim>\<open>get_last_order_for_client\<close>, over the reversed list.\<close>

fun last_order_loop :: "string \<Rightarrow> row list \<Rightarrow> pyerr + pydict option" where
  "last_order_loop cid [] = Inr None"
| "last_order_loop cid (Non_dict # rest) = Inl AttributeError"
| "last_order_loop cid (Dict d # rest) =
    (if client_is cid d then Inr (Some d) else last_order_loop cid rest)"

definition get_last_order_for_client :: "file_content \<Rightarrow> int \<Rightarrow> pyerr + pydict option" where
  "get_last_order_for_client disk client_id =
    (let orders = load_orders disk; cid = str_int client_id
     in last_order_loop cid (rev orders))"

text \<open>\<^verbatim>\<open>row.get("status") if row else None\<close>: an empty dict is falsy.\<close>

definition get_order_status :: "file_content \<Rightarrow> int \<Rightarrow> pyerr + pyval" where
  "get_order_status disk client_id =
    (case get_last_order_for_client disk client_id of
       Inl e \<Rightarrow> Inl e
     | Inr None \<Rightarrow> Inr PNone
     | Inr (Some r) \<Rightarrow> Inr (if r \<noteq> [] then dget r ''status'' else PNone))"

text \<open>
  The loop of \<^verbatim>\<open>update_order_status\<close>, over the reversed list: the first match is
  changed in place (the row is the object the list holds) and the scan stops. The result
  is the reversed list after the change, or \<open>None\<close> when no row matched.
\<close>

fun update_loop :: "string \<Rightarrow> string \<Rightarrow> string \<Rightarrow> row list \<Rightarrow> pyerr + row list option" where
  "update_loop cid new_status stamp [] = Inr None"
| "update_loop cid new_status stamp (Non_dict # rest) = Inl AttributeError"
| "update_loop cid new_status stamp (Dict d # rest) =
    (if client_is cid d
     then Inr (Some (Dict (dset ''status_updated_at'' (PStr stamp) (dset ''status'' (PStr new_status) d)) # rest))
     else (case update_loop cid new_status stamp rest of
             Inl e \<Rightarrow> Inl e
           | Inr None \<Rightarrow> Inr None
           | Inr (Some rest') \<Rightarrow> Inr (Some (Dict d # rest'))))"

definition update_order_status ::
  "pylib \<Rightarrow> save_fault \<Rightarrow> int \<Rightarrow> file_content \<Rightarrow> int \<Rightarrow> string \<Rightarrow> pyerr + (file_content \<times> bool)" where
  "update_order_status L fault now disk client_id new_status =
    (let orders = load_orders disk; cid = str_int client_id
     in case update_loop cid new_status (now_iso_with_tz L now) (rev orders) of
          Inl e \<Rightarrow> Inl e
        | Inr None \<Rightarrow> Inr (disk, False)
        | Inr (Some changed) \<Rightarrow> Inr (save_orders fault disk (rev changed)))"

definition new_request ::
  "pylib \<Rightarrow> int \<Rightarrow> int \<Rightarrow> string \<Rightarrow> string option \<Rightarrow> string option \<Rightarrow> string option \<Rightarrow> pydict" where
  "new_request L now client_id username tariff_key fio dob =
    [(''client_id'', PStr (str_int client_id)),
     (''username'', PStr (if username \<noteq> [] then username else no_username)),
     (''status'', PStr ''waiting_req''),
     (''created_at'', PStr (now_iso_with_tz L now)),
     (''tariff_key'', opt_val tariff_key),
     (''tariff_text'',
        (case tariff_key of
           None \<Rightarrow> PNone
         | Some k \<Rightarrow> if k \<noteq> [] then opt_val (map_of TARIFFS k) else PNone)),
     (''fio'', opt_val fio),
     (''dob'', opt_val dob)]"

definition add_request ::
  "pylib \<Rightarrow> save_fault \<Rightarrow> int \<Rightarrow> file_content \<Rightarrow> int \<Rightarrow> string \<Rightarrow> string option \<Rightarrow> string option
     \<Rightarrow> string option \<Rightarrow> file_content \<times> bool" where
  "add_request L fault now disk client_id username tariff_key fio dob =
    (let orders = load_orders disk
     in save_orders fault disk (orders @ [Dict (new_request L now client_id username tariff_key fio dob)]))"

section \<open>The rate limiter\<close>

text \<open>\<^verbatim>\<open>timedelta(hours=1)\<close>, in microseconds.\<close>

definition hour :: int where
  "hour = 3600000000"

text \<open>The loop of \<^verbatim>\<open>check_request_limit\<close>; an exception leaves it as \<open>Inl\<close>.\<close>

fun count_loop :: "pylib \<Rightarrow> int \<Rightarrow> string \<Rightarrow> row list \<Rightarrow> int \<Rightarrow> pyerr + int" where
  "count_loop L one_hour_ago cid_str [] count = Inr count"
| "count_loop L one_hour_ago cid_str (Non_dict # rest) count = Inl AttributeError"
| "count_loop L one_hour_ago cid_str (Dict d # rest) count =
    (if \<not> client_is cid_str d then count_loop L one_hour_ago cid_str rest count
     else (case parse_iso_datetime L (dget d ''created_at'') of
             None \<Rightarrow> count_loop L one_hour_ago cid_str rest count
           | Some parsed \<Rightarrow>
               if parsed > one_hour_ago then count_loop L one_hour_ago cid_str rest (count + 1)
               else count_loop L one_hour_ago cid_str rest count))"

text \<open>
  \<open>max_requests\<close> is \<^verbatim>\<open>MAX_REQUESTS_PER_HOUR\<close> (read from the environment, 10 when
  unset); \<open>now\<close> is \<^verbatim>\<open>datetime.now(TIMEZONE)\<close>.
\<close>

definition check_request_limit :: "pylib \<Rightarrow> int \<Rightarrow> int \<Rightarrow> file_content \<Rightarrow> int \<Rightarrow> bool" where
  "check_request_limit L max_requests now disk client_id =
    (let orders = load_orders disk; one_hour_ago = now - hour; cid_str = str_int client_id
     in case count_loop L one_hour_ago cid_str orders 0 of
          Inl e \<Rightarrow> True
        | Inr count \<Rightarrow> count < max_requests)"

section \<open>The chat transport\<close>

text \<open>
  The texts the handlers send are fixed literals; each is a constructor here, named after
  what it says. A caption and a client notice keep the data the code formats into them.
\<close>

datatype reply =
    Ask_dob
  | Save_failed_retry_later
  | Ask_photo
  | Photo_not_as_document
  | Enter_fio_and_dob_first
  | Photo_forward_failed_retry
  | Photo_received
  | Send_receipt_please
  | Payment_being_checked
  | Receipt_forward_failed_retry
  | Unexpected_media
  | Admin_chat_only
  | Usage_send_req
  | Usage_confirm
  | Client_id_must_be_number
  | No_order_for_client int
  | Requisites_sent int
  | Requisites_not_delivered
  | Payment_confirmed int string
  | Link_not_delivered

datatype caption =
    New_order int string string string string
  | Receipt int string

datatype notice = Requisites string | Product_link string

datatype outbound =
    Reply reply
  | Send_photo string caption
  | Send_document string caption
  | Send_message int notice

text \<open>
  What a handler leaves behind: the orders file, the messages the transport accepted, in
  order, and the exception that ended the handler, if one did. \<open>delivers\<close> says of each
  outbound message whether the transport accepts it; where it does not, the call raises.
\<close>

record effects =
  eff_disk :: file_content
  eff_sent :: "outbound list"
  eff_raised :: "pyerr option"

definition returns :: "file_content \<Rightarrow> outbound list \<Rightarrow> effects" where
  "returns disk sent = \<lparr>eff_disk = disk, eff_sent = sent, eff_raised = None\<rparr>"

definition raises :: "pyerr \<Rightarrow> file_content \<Rightarrow> outbound list \<Rightarrow> effects" where
  "raises e disk sent = \<lparr>eff_disk = disk, eff_sent = sent, eff_raised = Some e\<rparr>"

definition reply_text :: "(outbound \<Rightarrow> bool) \<Rightarrow> reply \<Rightarrow> file_content \<Rightarrow> outbound list \<Rightarrow> effects" where
  "reply_text delivers r disk sent =
    (if delivers (Reply r) then returns disk (sent @ [Reply r]) else raises TelegramError disk sent)"

text \<open>\<^verbatim>\<open>html.escape\<close> with its default \<^verbatim>\<open>quote=True\<close>.\<close>

definition html_escape_char :: "char \<Rightarrow> string" where
  "html_escape_char c =
    (if c = CHR ''&'' then ''&amp;''
     else if c = CHR ''<'' then ''&lt;''
     else if c = CHR ''>'' then ''&gt;''
     else if c = CHR 0x22 then ''&quot;''
     else if c = CHR 0x27 then ''&#x27;''
     else [c])"

definition html_escape :: "string \<Rightarrow> string" where
  "html_escape s = concat (map html_escape_char s)"

text \<open>\<^verbatim>\<open>escape_html\<close> on a field of a row: \<^verbatim>\<open>html.escape\<close> raises on what is not a string.\<close>

fun escape_html :: "pyval \<Rightarrow> pyerr + string" where
  "escape_html PNone = Inr []"
| "escape_html (PStr s) = Inr (html_escape s)"
| "escape_html (PBool b) = Inl AttributeError"
| "escape_html (PInt n) = Inl AttributeError"

section \<open>Buyer handlers\<close>

text \<open>
  An incoming message: the sender, the text (of a text message), the file ids of the
  photo sizes (empty when there is no photo) and of the document. \<open>user_data\<close> is the
  sender's \<^verbatim>\<open>context.user_data\<close>.
\<close>

record message =
  from_id :: int
  from_username :: "string option"
  msg_text :: string
  photo :: "string list"
  document :: "string option"

type_synonym user_data = "(string \<times> string) list"

text \<open>\<^verbatim>\<open>message.from_user.username or "..."\<close>.\<close>

definition username_of :: "message \<Rightarrow> string" where
  "username_of m = (case from_username m of None \<Rightarrow> no_username | Some u \<Rightarrow> if u \<noteq> [] then u else no_username)"

definition handle_user_input ::
  "pylib \<Rightarrow> (outbound \<Rightarrow> bool) \<Rightarrow> save_fault \<Rightarrow> int \<Rightarrow> user_data \<Rightarrow> file_content \<Rightarrow> message
     \<Rightarrow> user_data \<times> effects" where
  "handle_user_input L delivers fault now ud disk m =
    (case map_of ud ''order_state'' of
       None \<Rightarrow> (ud, returns disk [])
     | Some current_state \<Rightarrow>
         let txt = strip L (msg_text m) in
         if current_state = AWAITING_FIO then
           (dset ''order_state'' AWAITING_DOB (dset ''fio'' txt ud), reply_text delivers Ask_dob disk [])
         else if current_state = AWAITING_DOB then
           (let ud1 = dset ''dob'' txt ud;
                client_id = from_id m;
                tariff_key = map_of ud1 ''selected_tariff_key'';
                fio = map_of ud1 ''fio'';
                dob = map_of ud1 ''dob'';
                username = username_of m;
                (disk1, ok) = add_request L fault now disk client_id username tariff_key fio dob
            in if \<not> ok then
                 (let e = reply_text delivers Save_failed_retry_later disk1 []
                  in (if eff_raised e = None then [] else ud1, e))
               else (dset ''order_state'' AWAITING_PHOTO ud1, reply_text delivers Ask_photo disk1 []))
         else (ud, returns disk []))"

text \<open>
  The first branch of \<^verbatim>\<open>handle_all_media\<close>: the 3x4 photo for the order. The test
  \<^verbatim>\<open>not last_order or not all([fio, dob, tariff_text])\<close> is the two places that lead
  to \<open>ask_again\<close>; the state goes back to \<open>AWAITING_FIO\<close> after the reply, so only when
  the reply did not raise.
\<close>

definition handle_id_photo ::
  "pylib \<Rightarrow> (outbound \<Rightarrow> bool) \<Rightarrow> save_fault \<Rightarrow> int \<Rightarrow> user_data \<Rightarrow> file_content \<Rightarrow> message
     \<Rightarrow> user_data \<times> effects" where
  "handle_id_photo L delivers fault now ud disk m =
    (let client_id = from_id m in
     if photo m = [] then (ud, reply_text delivers Photo_not_as_document disk [])
     else
       (case get_last_order_for_client disk client_id of
          Inl e \<Rightarrow> (ud, raises e disk [])
        | Inr last_order \<Rightarrow>
            let file_id = last (photo m);
                asked = reply_text delivers Enter_fio_and_dob_first disk [];
                ask_again = (if eff_raised asked = None then dset ''order_state'' AWAITING_FIO ud else ud, asked)
            in case last_order of
                 None \<Rightarrow> ask_again
               | Some r \<Rightarrow>
                   if r = [] \<or> \<not> (truthy (dget r ''fio'') \<and> truthy (dget r ''dob'') \<and> truthy (dget r ''tariff_text''))
                   then ask_again
                   else
                     let username = username_of m;
                         safe_username =
                           (if username \<noteq> no_username then html_escape (''@'' @ username) else no_username)
                     in case escape_html (py_or (dget r ''fio'') (PStr [])) of
                          Inl e \<Rightarrow> (ud, raises e disk [])
                        | Inr safe_fio \<Rightarrow>
                     (case escape_html (py_or (dget r ''dob'') (PStr [])) of
                          Inl e \<Rightarrow> (ud, raises e disk [])
                        | Inr safe_dob \<Rightarrow>
                     (case escape_html (py_or (dget r ''tariff_text'') (PStr [])) of
                          Inl e \<Rightarrow> (ud, raises e disk [])
                        | Inr safe_tariff \<Rightarrow>
                            let forward = Send_photo file_id
                                  (New_order client_id safe_username safe_tariff safe_fio safe_dob)
                            in if \<not> delivers forward then
                                 (ud, reply_text delivers Photo_forward_failed_retry disk [])
                               else
                                 (case update_order_status L fault now disk client_id ''waiting_payment'' of
                                    Inl e \<Rightarrow> (ud, raises e disk [forward])
                                  | Inr (disk1, ok) \<Rightarrow>
                                      (ud, reply_text delivers Photo_received disk1 [forward]))))))"

text \<open>
  The second branch: the payment receipt. Everything from the forward on stands in one
  \<^verbatim>\<open>try\<close>, so whatever raises there ends in the same reply.
\<close>

definition handle_receipt ::
  "pylib \<Rightarrow> (outbound \<Rightarrow> bool) \<Rightarrow> save_fault \<Rightarrow> int \<Rightarrow> user_data \<Rightarrow> file_content \<Rightarrow> message
     \<Rightarrow> user_data \<times> effects" where
  "handle_receipt L delivers fault now ud disk m =
    (let client_id = from_id m in
     if photo m = [] \<and> document m = None then (ud, reply_text delivers Send_receipt_please disk [])
     else
       let username = username_of m;
           safe_username = html_escape (''@'' @ username);
           caption_text = Receipt client_id safe_username;
           forward =
             (if photo m \<noteq> [] then [Send_photo (last (photo m)) caption_text]
              else (case document m of
                      Some file_id \<Rightarrow> [Send_document file_id caption_text]
                    | None \<Rightarrow> []))
       in if \<not> list_all delivers forward then
            (ud, reply_text delivers Receipt_forward_failed_retry disk [])
          else
            (case update_order_status L fault now disk client_id ''waiting_confirm'' of
               Inl e \<Rightarrow> (ud, reply_text delivers Receipt_forward_failed_retry disk forward)
             | Inr (disk1, ok) \<Rightarrow>
                 if delivers (Reply Payment_being_checked)
                 then (ud, returns disk1 (forward @ [Reply Payment_being_checked]))
                 else (ud, reply_text delivers Receipt_forward_failed_retry disk1 forward)))"

definition handle_all_media ::
  "pylib \<Rightarrow> (outbound \<Rightarrow> bool) \<Rightarrow> save_fault \<Rightarrow> int \<Rightarrow> user_data \<Rightarrow> file_content \<Rightarrow> message
     \<Rightarrow> user_data \<times> effects" where
  "handle_all_media L delivers fault now ud disk m =
    (let client_id = from_id m in
     case get_order_status disk client_id of
       Inl e \<Rightarrow> (ud, raises e disk [])
     | Inr status \<Rightarrow>
         let current_state = map_of ud ''order_state'';
             is_photo_id_expected = (current_state = Some AWAITING_PHOTO \<and> status = PStr ''waiting_req'')
         in if is_photo_id_expected then handle_id_photo L delivers fault now ud disk m
            else if status \<in> set [PStr ''waiting_payment'', PStr ''waiting_confirm'']
              then handle_receipt L delivers fault now ud disk m
            else (ud, reply_text delivers Unexpected_media disk []))"

section \<open>Operator commands\<close>

text \<open>
  A command update: the id of the chat it came from (\<open>None\<close> when the update has no
  chat) and the words after the command. A command always comes with its message.
\<close>

record command =
  cmd_chat :: "int option"
  cmd_args :: "string list"

text \<open>
  \<^verbatim>\<open>admin_check\<close>: its reply to a stranger is sent inside a \<^verbatim>\<open>try\<close> that ignores every
  exception. The result is the verdict and what was sent.
\<close>

definition admin_check :: "int \<Rightarrow> (outbound \<Rightarrow> bool) \<Rightarrow> command \<Rightarrow> bool \<times> outbound list" where
  "admin_check admin_chat_id delivers c =
    (case cmd_chat c of
       None \<Rightarrow> (False, [])
     | Some chat_id \<Rightarrow>
         if chat_id \<noteq> admin_chat_id
         then (False, if delivers (Reply Admin_chat_only) then [Reply Admin_chat_only] else [])
         else (True, []))"

text \<open>\<^verbatim>\<open>" ".join(words)\<close>.\<close>

fun join_spaces :: "string list \<Rightarrow> string" where
  "join_spaces [] = []"
| "join_spaces [w] = w"
| "join_spaces (w # ws) = w @ '' '' @ join_spaces ws"

definition send_requisites ::
  "pylib \<Rightarrow> int \<Rightarrow> (outbound \<Rightarrow> bool) \<Rightarrow> save_fault \<Rightarrow> int \<Rightarrow> file_content \<Rightarrow> command \<Rightarrow> effects" where
  "send_requisites L admin_chat_id delivers fault now disk c =
    (case admin_check admin_chat_id delivers c of
       (False, sent) \<Rightarrow> returns disk sent
     | (True, sent) \<Rightarrow>
         let args = cmd_args c in
         if length args < 2 then reply_text delivers Usage_send_req disk []
         else
           (case int_of_str L (strip L (hd args)) of
              None \<Rightarrow> reply_text delivers Client_id_must_be_number disk []
            | Some client_id \<Rightarrow>
                let requisites_text = join_spaces (tl args);
                    safe_requisites_text = html_escape requisites_text
                in case update_order_status L fault now disk client_id ''waiting_payment'' of
                     Inl e \<Rightarrow> raises e disk []
                   | Inr (disk1, ok) \<Rightarrow>
                       if \<not> ok then reply_text delivers (No_order_for_client client_id) disk1 []
                       else
                         let notice = Send_message client_id (Requisites safe_requisites_text) in
                         if \<not> delivers notice then reply_text delivers Requisites_not_delivered disk1 []
                         else if delivers (Reply (Requisites_sent client_id))
                           then returns disk1 [notice, Reply (Requisites_sent client_id)]
                         else reply_text delivers Requisites_not_delivered disk1 [notice]))"

definition confirm_payment ::
  "pylib \<Rightarrow> int \<Rightarrow> (outbound \<Rightarrow> bool) \<Rightarrow> save_fault \<Rightarrow> int \<Rightarrow> file_content \<Rightarrow> command \<Rightarrow> effects" where
  "confirm_payment L admin_chat_id delivers fault now disk c =
    (case admin_check admin_chat_id delivers c of
       (False, sent) \<Rightarrow> returns disk sent
     | (True, sent) \<Rightarrow>
         let args = cmd_args c in
         if length args < 2 then reply_text delivers Usage_confirm disk []
         else
           (case int_of_str L (strip L (hd args)) of
              None \<Rightarrow> reply_text delivers Client_id_must_be_number disk []
            | Some client_id \<Rightarrow>
                let product_link = strip L (args ! 1)
                in case update_order_status L fault now disk client_id ''completed'' of
                     Inl e \<Rightarrow> raises e disk []
                   | Inr (disk1, ok) \<Rightarrow>
                       if \<not> ok then reply_text delivers (No_order_for_client client_id) disk1 []
                       else
                         let safe_link = html_escape product_link;
                             notice = Send_message client_id (Product_link safe_link)
                         in if \<not> delivers notice then reply_text delivers Link_not_delivered disk1 []
                            else if delivers (Reply (Payment_confirmed client_id product_link))
                              then returns disk1 [notice, Reply (Payment_confirmed client_id product_link)]
                            else reply_text delivers Link_not_delivered disk1 [notice]))"

section \<open>Notions the statements use\<close>

text \<open>A row that is a JSON object, and a row that belongs to a client.\<close>

definition is_dict :: "row \<Rightarrow> bool" where
  "is_dict r = (case r of Dict d \<Rightarrow> True | Non_dict \<Rightarrow> False)"

definition row_client_is :: "string \<Rightarrow> row \<Rightarrow> bool" where
  "row_client_is cid r = (case r of Dict d \<Rightarrow> client_is cid d | Non_dict \<Rightarrow> False)"

text \<open>
  A call of \<^verbatim>\<open>add_request\<close>: the clock it reads and its arguments. \<open>record_of\<close> is the
  row the call builds, \<open>append_all\<close> the file after a sequence of calls whose saves all
  go through.
\<close>

record append_call =
  call_now :: int
  call_client :: int
  call_username :: string
  call_tariff_key :: "string option"
  call_fio :: "string option"
  call_dob :: "string option"

definition record_of :: "pylib \<Rightarrow> append_call \<Rightarrow> pydict" where
  "record_of L a =
    new_request L (call_now a) (call_client a) (call_username a) (call_tariff_key a) (call_fio a) (call_dob a)"

fun append_all :: "pylib \<Rightarrow> file_content \<Rightarrow> append_call list \<Rightarrow> file_content" where
  "append_all L disk [] = disk"
| "append_all L disk (a # calls) =
    append_all L
      (fst (add_request L No_fault (call_now a) disk (call_client a) (call_username a)
         (call_tariff_key a) (call_fio a) (call_dob a))) calls"

text \<open>
  The test the loop of \<open>check_request_limit\<close> applies to a row: it belongs to the client
  and its \<open>created_at\<close> parses to an instant later than \<open>one_hour_ago\<close>.
\<close>

definition counted :: "pylib \<Rightarrow> int \<Rightarrow> string \<Rightarrow> row \<Rightarrow> bool" where
  "counted L one_hour_ago cid r =
    (case r of
       Dict d \<Rightarrow> client_is cid d \<and>
         (case parse_iso_datetime L (dget d ''created_at'') of None \<Rightarrow> False | Some t \<Rightarrow> one_hour_ago < t)
     | Non_dict \<Rightarrow> False)"

text \<open>
  The specification's wording of the same test, for comparison: the instant lies in the
  trailing hour, after \<open>now - hour\<close> and not after \<open>now\<close>.
\<close>

definition spec_in_trailing_hour :: "pylib \<Rightarrow> int \<Rightarrow> string \<Rightarrow> row \<Rightarrow> bool" where
  "spec_in_trailing_hour L now cid r =
    (case r of
       Dict d \<Rightarrow> client_is cid d \<and>
         (case parse_iso_datetime L (dget d ''created_at'') of
            None \<Rightarrow> False
          | Some t \<Rightarrow> now - hour < t \<and> t \<le> now)
     | Non_dict \<Rightarrow> False)"

text \<open>The two assignments of \<^verbatim>\<open>update_order_status\<close> on the row it finds.\<close>

definition with_status :: "string \<Rightarrow> string \<Rightarrow> pydict \<Rightarrow> pydict" where
  "with_status new_status stamp d = dset ''status_updated_at'' (PStr stamp) (dset ''status'' (PStr new_status) d)"

text \<open>
  A session for the concrete runs of the photo stage: client 7 chose the 30 days tariff
  and entered name and date of birth, so the ledger holds the order and the session
  waits for the photo; then a message with a photo in two sizes.
\<close>

definition thirty_days_text :: string where
  "thirty_days_text = ''30 '' @ [CHR 0xD0, CHR 0xB4, CHR 0xD0, CHR 0xBD, CHR 0xD1, CHR 0x96, CHR 0xD0, CHR 0xB2]
     @ '' '' @ [CHR 0xE2, CHR 0x80, CHR 0x94] @ '' 70'' @ [CHR 0xE2, CHR 0x82, CHR 0xB4]"

definition jane_order :: pydict where
  "jane_order =
    [(''client_id'', PStr ''7''), (''username'', PStr ''jane''), (''status'', PStr ''waiting_req''),
     (''created_at'', PStr ''2024-01-01T00:00:00+02:00''), (''tariff_key'', PStr ''30_days''),
     (''tariff_text'', PStr thirty_days_text), (''fio'', PStr ''Jane Doe''), (''dob'', PStr ''01.01.1990'')]"

definition jane_session :: user_data where
  "jane_session =
    [(''selected_tariff_key'', ''30_days''), (''order_state'', ''awaiting_photo''), (''fio'', ''Jane Doe''),
     (''dob'', ''01.01.1990'')]"

definition jane_photo :: message where
  "jane_photo =
    \<lparr>from_id = 7, from_username = Some ''jane'', msg_text = [], photo = [''small'', ''large''], document = None\<rparr>"

text \<open>The messages that go to the operator channel: a forwarded photo or document.\<close>

definition is_forward :: "outbound \<Rightarrow> bool" where
  "is_forward x = (case x of Send_photo f c \<Rightarrow> True | Send_document f c \<Rightarrow> True | _ \<Rightarrow> False)"

text \<open>
  A fragment of the library for the concrete runs: three instants of 1 January 2024 in
  Kyiv (UTC+2) with their ISO texts, two numerals, and texts without surrounding blanks.
\<close>

definition t0 :: int where
  "t0 = 1704060000000000"

definition example_lib :: pylib where
  "example_lib =
    \<lparr>isoformat = (\<lambda>t. if t = t0 then ''2024-01-01T00:00:00+02:00''
                      else if t = t0 + hour then ''2024-01-01T01:00:00+02:00''
                      else if t = t0 + 2 * hour then ''2024-01-01T02:00:00+02:00''
                      else []),
     fromisoformat = map_of
       [(''2024-01-01T00:00:00+02:00'', Aware t0),
        (''2024-01-01T01:00:00+02:00'', Aware (t0 + hour)),
        (''2024-01-01T02:00:00+02:00'', Aware (t0 + 2 * hour)),
        (''2024-01-01T01:30:00'', Naive (t0 + 3 * hour + hour div 2))],
     localize = (\<lambda>w. Some (w - 2 * hour)),
     int_of_str = map_of [(''7'', 7), (''123'', 123)],
     strip = (\<lambda>s. s)\<rparr>"

section \<open>Facts about the Python values\<close>

lemma digit_char_inj: "d < 10 \<Longrightarrow> e < 10 \<Longrightarrow> digit_char d = digit_char e \<Longrightarrow> d = e"
proof -
  assume a: "d < 10" "e < 10" "digit_char d = digit_char e"
  have "distinct ''0123456789''" "length ''0123456789'' = 10" by simp_all
  with a nth_eq_iff_index_eq [of "''0123456789''" d e] show ?thesis
    unfolding digit_char_def by simp
qed

lemma digit_char_not_minus: "d < 10 \<Longrightarrow> digit_char d \<noteq> CHR ''-''"
proof -
  assume a: "d < 10"
  then have "''0123456789'' ! d \<in> set ''0123456789''" by (intro nth_mem) simp
  then show ?thesis unfolding digit_char_def by auto
qed

lemma digits_not_Nil: "digits n \<noteq> []"
  by (subst digits.simps) simp

lemma minus_notin_digits: "CHR ''-'' \<notin> set (digits n)"
proof (induction n rule: digits.induct)
  case (1 n)
  show ?case
  proof (cases "n < 10")
    case True
    then show ?thesis using digit_char_not_minus [of n] by (subst digits.simps) auto
  next
    case False
    then show ?thesis using 1 digit_char_not_minus [of "n mod 10"]
      by (subst digits.simps) auto
  qed
qed

lemma digits_inj: "digits n = digits m \<Longrightarrow> n = m"
proof (induction n arbitrary: m rule: digits.induct)
  case (1 n)
  show ?case
  proof (cases "n < 10")
    case n: True
    show ?thesis
    proof (cases "m < 10")
      case True
      with n 1(2) show ?thesis by (simp add: digits.simps [of n] digits.simps [of m] digit_char_inj)
    next
      case False
      with n 1(2) digits_not_Nil [of "m div 10"] show ?thesis
        by (simp add: digits.simps [of n] digits.simps [of m] Cons_eq_append_conv)
    qed
  next
    case n: False
    show ?thesis
    proof (cases "m < 10")
      case True
      with n 1(2) digits_not_Nil [of "n div 10"] show ?thesis
        by (simp add: digits.simps [of n] digits.simps [of m] append_eq_Cons_conv)
    next
      case False
      with n 1(2) have e: "digits (n div 10) = digits (m div 10)" "digit_char (n mod 10) = digit_char (m mod 10)"
        by (simp_all add: digits.simps [of n] digits.simps [of m])
      from 1(1) [OF n e(1)] have "n div 10 = m div 10" .
      moreover from e(2) have "n mod 10 = m mod 10" by (simp add: digit_char_inj)
      ultimately show ?thesis by (metis div_mult_mod_eq)
    qed
  qed
qed

lemma str_int_inj: "str_int i = str_int j \<Longrightarrow> i = j"
proof -
  assume e: "str_int i = str_int j"
  show ?thesis
  proof (cases "i < 0")
    case i: True
    show ?thesis
    proof (cases "j < 0")
      case True
      with i e have "nat (- i) = nat (- j)" by (simp add: str_int_def digits_inj)
      with i True show ?thesis by simp
    next
      case False
      with i e have "digits (nat j) = CHR ''-'' # digits (nat (- i))"
        by (simp add: str_int_def)
      then have "CHR ''-'' \<in> set (digits (nat j))" by simp
      with minus_notin_digits show ?thesis by blast
    qed
  next
    case i: False
    show ?thesis
    proof (cases "j < 0")
      case True
      with i e have "digits (nat i) = CHR ''-'' # digits (nat (- j))"
        by (simp add: str_int_def)
      then have "CHR ''-'' \<in> set (digits (nat i))" by simp
      with minus_notin_digits show ?thesis by blast
    next
      case False
      with i e have "nat i = nat j" by (simp add: str_int_def digits_inj)
      with i False show ?thesis by simp
    qed
  qed
qed

lemma dget_dset_same: "dget (dset k v d) k = v"
  by (induction d) (auto simp: dget_def)

lemma dget_dset_other: "k' \<noteq> k \<Longrightarrow> dget (dset k v d) k' = dget d k'"
  by (induction d) (auto simp: dget_def)

section \<open>The ledger scans\<close>

lemma last_order_loop_skip:
  "\<forall>r\<in>set pre. is_dict r \<and> \<not> row_client_is cid r \<Longrightarrow>
     last_order_loop cid (pre @ rest) = last_order_loop cid rest"
proof (induction pre)
  case Nil
  then show ?case by simp
next
  case (Cons r pre)
  then show ?case by (cases r) (simp_all add: is_dict_def row_client_is_def)
qed

lemma client_is_new_request:
  "client_is (str_int c) (new_request L now c' u k f d) = (c' = c)"
  by (auto simp: client_is_def new_request_def dget_def dest: str_int_inj)

lemma load_append_all:
  "load_orders (append_all L disk calls) = load_orders disk @ map (\<lambda>a. Dict (record_of L a)) calls"
  by (induction calls arbitrary: disk) (simp_all add: add_request_def record_of_def)

text \<open>
  C1. On a ledger whose rows are all JSON objects, \<open>get_last_order_for_client\<close> returns
  the last row of the list whose client id matches (no row after it matches), and None
  when no row matches. After any sequence of successful \<open>add_request\<close> calls, started
  from any file, it returns for a client the row built by the last call made for that
  client, whatever calls for other clients come before, between or after.
\<close>

theorem get_last_order_for_client_most_recent:
  "(list_all is_dict (load_orders disk) \<longrightarrow>
     (if \<exists>r\<in>set (load_orders disk). row_client_is (str_int c) r
      then \<exists>pre d post. load_orders disk = pre @ Dict d # post \<and> client_is (str_int c) d \<and>
             (\<forall>r\<in>set post. \<not> row_client_is (str_int c) r) \<and>
             get_last_order_for_client disk c = Inr (Some d)
      else get_last_order_for_client disk c = Inr None)) \<and>
   (\<forall>before a after. calls = before @ a # after \<and> call_client a = c \<and>
        (\<forall>b\<in>set after. call_client b \<noteq> c) \<longrightarrow>
      get_last_order_for_client (append_all L disk0 calls) c = Inr (Some (record_of L a)))"
proof (intro conjI impI allI)
  assume wt: "list_all is_dict (load_orders disk)"
  show "if \<exists>r\<in>set (load_orders disk). row_client_is (str_int c) r
      then \<exists>pre d post. load_orders disk = pre @ Dict d # post \<and> client_is (str_int c) d \<and>
             (\<forall>r\<in>set post. \<not> row_client_is (str_int c) r) \<and>
             get_last_order_for_client disk c = Inr (Some d)
      else get_last_order_for_client disk c = Inr None"
  proof (cases "\<exists>r\<in>set (load_orders disk). row_client_is (str_int c) r")
    case True
    from split_list_last_prop [OF True]
    obtain pre r post where s: "load_orders disk = pre @ r # post"
      "row_client_is (str_int c) r" "\<forall>z\<in>set post. \<not> row_client_is (str_int c) z"
      by blast
    from s(2) obtain d where d: "r = Dict d" "client_is (str_int c) d"
      by (cases r) (simp_all add: row_client_is_def)
    from wt s(1) s(3) have "\<forall>z\<in>set (rev post). is_dict z \<and> \<not> row_client_is (str_int c) z"
      by (simp add: list_all_iff)
    then have "last_order_loop (str_int c) (rev post @ Dict d # rev pre) = Inr (Some d)"
      using d(2) by (simp add: last_order_loop_skip)
    with s d have "load_orders disk = pre @ Dict d # post \<and> client_is (str_int c) d \<and>
             (\<forall>r\<in>set post. \<not> row_client_is (str_int c) r) \<and>
             get_last_order_for_client disk c = Inr (Some d)"
      by (simp add: get_last_order_for_client_def)
    then have "\<exists>pre d post. load_orders disk = pre @ Dict d # post \<and> client_is (str_int c) d \<and>
             (\<forall>r\<in>set post. \<not> row_client_is (str_int c) r) \<and>
             get_last_order_for_client disk c = Inr (Some d)"
      by blast
    with True show ?thesis by simp
  next
    case False
    with wt have "\<forall>z\<in>set (rev (load_orders disk)). is_dict z \<and> \<not> row_client_is (str_int c) z"
      by (simp add: list_all_iff)
    from last_order_loop_skip [OF this, of "[]"] False show ?thesis
      by (simp add: get_last_order_for_client_def)
  qed
next
  fix before a after
  assume h: "calls = before @ a # after \<and> call_client a = c \<and> (\<forall>b\<in>set after. call_client b \<noteq> c)"
  let ?f = "\<lambda>a. Dict (record_of L a)"
  have "\<forall>z\<in>set (rev (map ?f after)). is_dict z \<and> \<not> row_client_is (str_int c) z"
    using h by (auto simp: is_dict_def row_client_is_def record_of_def client_is_new_request)
  from last_order_loop_skip [OF this]
  have "last_order_loop (str_int c) (rev (map ?f after) @ ?f a # rev (load_orders disk0 @ map ?f before))
    = Inr (Some (record_of L a))"
    using h by (simp add: record_of_def client_is_new_request)
  with h show "get_last_order_for_client (append_all L disk0 calls) c = Inr (Some (record_of L a))"
    by (simp add: get_last_order_for_client_def load_append_all)
qed

theorem get_last_order_for_client_most_recent_witness:
  "list_all is_dict
     [Dict [(''client_id'', PStr ''7''), (''status'', PStr ''waiting_req'')],
      Dict [(''client_id'', PStr ''8'')],
      Dict [(''client_id'', PInt 7), (''status'', PStr ''completed'')],
      Dict [(''client_id'', PStr ''9'')]] \<and>
   (\<exists>pre d post.
      [Dict [(''client_id'', PStr ''7''), (''status'', PStr ''waiting_req'')],
       Dict [(''client_id'', PStr ''8'')],
       Dict [(''client_id'', PInt 7), (''status'', PStr ''completed'')],
       Dict [(''client_id'', PStr ''9'')]] = pre @ Dict d # post \<and>
      (\<forall>r\<in>set post. \<not> row_client_is ''7'' r) \<and>
      get_last_order_for_client (Json_list
        [Dict [(''client_id'', PStr ''7''), (''status'', PStr ''waiting_req'')],
         Dict [(''client_id'', PStr ''8'')],
         Dict [(''client_id'', PInt 7), (''status'', PStr ''completed'')],
         Dict [(''client_id'', PStr ''9'')]]) 7 = Inr (Some d)) \<and>
   get_last_order_for_client (Json_list
     [Dict [(''client_id'', PStr ''7''), (''status'', PStr ''waiting_req'')],
      Dict [(''client_id'', PStr ''8'')],
      Dict [(''client_id'', PInt 7), (''status'', PStr ''completed'')],
      Dict [(''client_id'', PStr ''9'')]]) 7
     = Inr (Some [(''client_id'', PInt 7), (''status'', PStr ''completed'')]) \<and>
   get_last_order_for_client
     (append_all example_lib Malformed
        [\<lparr>call_now = t0, call_client = 7, call_username = ''jane'', call_tariff_key = Some ''30_days'',
          call_fio = Some ''Jane Doe'', call_dob = Some ''01.01.1990''\<rparr>,
         \<lparr>call_now = t0, call_client = 8, call_username = ''bob'', call_tariff_key = Some ''1_day'',
          call_fio = Some ''Bob Roe'', call_dob = Some ''02.02.1980''\<rparr>,
         \<lparr>call_now = t0 + hour, call_client = 7, call_username = ''jane'', call_tariff_key = Some ''forever'',
          call_fio = Some ''Jane R. Doe'', call_dob = Some ''01.01.1990''\<rparr>,
         \<lparr>call_now = t0 + 2 * hour, call_client = 9, call_username = [], call_tariff_key = None,
          call_fio = None, call_dob = None\<rparr>]) 7
     = Inr (Some (record_of example_lib
         \<lparr>call_now = t0 + hour, call_client = 7, call_username = ''jane'', call_tariff_key = Some ''forever'',
          call_fio = Some ''Jane R. Doe'', call_dob = Some ''01.01.1990''\<rparr>))"
proof -
  let ?ledger = "[Dict [(''client_id'', PStr ''7''), (''status'', PStr ''waiting_req'')],
      Dict [(''client_id'', PStr ''8'')],
      Dict [(''client_id'', PInt 7), (''status'', PStr ''completed'')],
      Dict [(''client_id'', PStr ''9'')]]"
  let ?a1 = "\<lparr>call_now = t0, call_client = 7, call_username = ''jane'', call_tariff_key = Some ''30_days'',
          call_fio = Some ''Jane Doe'', call_dob = Some ''01.01.1990''\<rparr>"
  let ?a2 = "\<lparr>call_now = t0, call_client = 8, call_username = ''bob'', call_tariff_key = Some ''1_day'',
          call_fio = Some ''Bob Roe'', call_dob = Some ''02.02.1980''\<rparr>"
  let ?a3 = "\<lparr>call_now = t0 + hour, call_client = 7, call_username = ''jane'', call_tariff_key = Some ''forever'',
          call_fio = Some ''Jane R. Doe'', call_dob = Some ''01.01.1990''\<rparr>"
  let ?a4 = "\<lparr>call_now = t0 + 2 * hour, call_client = 9, call_username = [], call_tariff_key = None,
          call_fio = None, call_dob = None\<rparr>"
  note T = get_last_order_for_client_most_recent
    [of "Json_list ?ledger" 7 "[?a1, ?a2, ?a3, ?a4]" example_lib Malformed]
  have s7: "str_int 7 = ''7''" by (simp add: str_int_def digits.simps digit_char_def)
  have wt: "list_all is_dict ?ledger" by (simp add: is_dict_def)
  have ex: "\<exists>r\<in>set ?ledger. row_client_is (str_int 7) r"
    by (simp add: s7 row_client_is_def client_is_def dget_def)
  from T wt ex have p1: "\<exists>pre d post. ?ledger = pre @ Dict d # post \<and>
      (\<forall>r\<in>set post. \<not> row_client_is ''7'' r) \<and>
      get_last_order_for_client (Json_list ?ledger) 7 = Inr (Some d)"
    unfolding s7 load_orders.simps by (elim conjE impE) (simp, simp, blast)
  have ev: "get_last_order_for_client (Json_list ?ledger) 7
     = Inr (Some [(''client_id'', PInt 7), (''status'', PStr ''completed'')])"
    by (simp add: get_last_order_for_client_def s7 client_is_def dget_def)
  from T have "[?a1, ?a2, ?a3, ?a4] = [?a1, ?a2] @ ?a3 # [?a4] \<and> call_client ?a3 = 7 \<and>
        (\<forall>b\<in>set [?a4]. call_client b \<noteq> 7) \<longrightarrow>
      get_last_order_for_client (append_all example_lib Malformed [?a1, ?a2, ?a3, ?a4]) 7
        = Inr (Some (record_of example_lib ?a3))"
    by blast
  then have p2: "get_last_order_for_client (append_all example_lib Malformed [?a1, ?a2, ?a3, ?a4]) 7
        = Inr (Some (record_of example_lib ?a3))"
    by simp
  from wt p1 ev p2 show ?thesis by blast
qed

section \<open>The rate limiter\<close>

lemma count_loop_append:
  "count_loop L oha cid (xs @ ys) n =
    (case count_loop L oha cid xs n of Inl e \<Rightarrow> Inl e | Inr k \<Rightarrow> count_loop L oha cid ys k)"
proof (induction xs arbitrary: n)
  case Nil
  then show ?case by simp
next
  case (Cons r xs)
  then show ?case by (cases r) (simp_all split: option.splits)
qed

lemma count_loop_filter:
  "list_all is_dict rows \<Longrightarrow>
     count_loop L oha cid rows n = Inr (n + int (length (filter (counted L oha cid) rows)))"
proof (induction rows arbitrary: n)
  case Nil
  then show ?case by simp
next
  case (Cons r rows)
  then show ?case by (cases r) (simp_all add: is_dict_def counted_def split: option.splits)
qed

lemma count_loop_non_dict:
  "\<not> list_all is_dict rows \<Longrightarrow> count_loop L oha cid rows n = Inl AttributeError"
proof (induction rows arbitrary: n)
  case Nil
  then show ?case by simp
next
  case (Cons r rows)
  then show ?case by (cases r) (simp_all add: is_dict_def split: option.splits)
qed

text \<open>
  C3, as the code has it. On a ledger whose rows are all JSON objects the limiter admits
  exactly when the number of the client's rows whose \<open>created_at\<close> parses to an instant
  later than one hour before now is below the ceiling. A row exactly one hour old is not
  counted; every row later than that is, also one dated after now; with the ceiling
  reached the request is denied.
\<close>

theorem check_request_limit_counts_younger_than_hour:
  "list_all is_dict (load_orders disk) \<Longrightarrow>
     (check_request_limit L max_requests now disk c =
        (int (length (filter (counted L (now - hour) (str_int c)) (load_orders disk))) < max_requests)) \<and>
     (\<forall>d. parse_iso_datetime L (dget d ''created_at'') = Some (now - hour) \<longrightarrow>
          \<not> counted L (now - hour) (str_int c) (Dict d)) \<and>
     (\<forall>d t. client_is (str_int c) d \<and> parse_iso_datetime L (dget d ''created_at'') = Some t \<and> now - hour < t \<longrightarrow>
          counted L (now - hour) (str_int c) (Dict d)) \<and>
     (int (length (filter (counted L (now - hour) (str_int c)) (load_orders disk))) = max_requests \<longrightarrow>
          \<not> check_request_limit L max_requests now disk c)"
  by (simp add: check_request_limit_def count_loop_filter counted_def)

theorem check_request_limit_counts_younger_than_hour_witness:
  "list_all is_dict
     [Dict [(''client_id'', PStr ''7''), (''created_at'', PStr ''2024-01-01T00:00:00+02:00'')],
      Dict [(''client_id'', PStr ''7''), (''created_at'', PStr ''2024-01-01T01:00:00+02:00'')],
      Dict [(''client_id'', PStr ''8''), (''created_at'', PStr ''2024-01-01T02:00:00+02:00'')],
      Dict [(''client_id'', PStr ''7''), (''created_at'', PStr ''2024-01-01T01:30:00'')],
      Dict [(''client_id'', PStr ''7''), (''created_at'', PStr ''yesterday'')],
      Dict [(''client_id'', PInt 7), (''created_at'', PStr ''2024-01-01T02:00:00+02:00'')]] \<and>
   parse_iso_datetime example_lib
     (dget [(''client_id'', PStr ''7''), (''created_at'', PStr ''2024-01-01T01:00:00+02:00'')] ''created_at'')
     = Some (t0 + 2 * hour - hour) \<and>
   \<not> counted example_lib (t0 + 2 * hour - hour) (str_int 7)
       (Dict [(''client_id'', PStr ''7''), (''created_at'', PStr ''2024-01-01T01:00:00+02:00'')]) \<and>
   int (length (filter (counted example_lib (t0 + 2 * hour - hour) (str_int 7))
     [Dict [(''client_id'', PStr ''7''), (''created_at'', PStr ''2024-01-01T00:00:00+02:00'')],
      Dict [(''client_id'', PStr ''7''), (''created_at'', PStr ''2024-01-01T01:00:00+02:00'')],
      Dict [(''client_id'', PStr ''8''), (''created_at'', PStr ''2024-01-01T02:00:00+02:00'')],
      Dict [(''client_id'', PStr ''7''), (''created_at'', PStr ''2024-01-01T01:30:00'')],
      Dict [(''client_id'', PStr ''7''), (''created_at'', PStr ''yesterday'')],
      Dict [(''client_id'', PInt 7), (''created_at'', PStr ''2024-01-01T02:00:00+02:00'')]])) = 2 \<and>
   \<not> check_request_limit example_lib 2 (t0 + 2 * hour) (Json_list
     [Dict [(''client_id'', PStr ''7''), (''created_at'', PStr ''2024-01-01T00:00:00+02:00'')],
      Dict [(''client_id'', PStr ''7''), (''created_at'', PStr ''2024-01-01T01:00:00+02:00'')],
      Dict [(''client_id'', PStr ''8''), (''created_at'', PStr ''2024-01-01T02:00:00+02:00'')],
      Dict [(''client_id'', PStr ''7''), (''created_at'', PStr ''2024-01-01T01:30:00'')],
      Dict [(''client_id'', PStr ''7''), (''created_at'', PStr ''yesterday'')],
      Dict [(''client_id'', PInt 7), (''created_at'', PStr ''2024-01-01T02:00:00+02:00'')]]) 7"
proof -
  let ?rows = "[Dict [(''client_id'', PStr ''7''), (''created_at'', PStr ''2024-01-01T00:00:00+02:00'')],
      Dict [(''client_id'', PStr ''7''), (''created_at'', PStr ''2024-01-01T01:00:00+02:00'')],
      Dict [(''client_id'', PStr ''8''), (''created_at'', PStr ''2024-01-01T02:00:00+02:00'')],
      Dict [(''client_id'', PStr ''7''), (''created_at'', PStr ''2024-01-01T01:30:00'')],
      Dict [(''client_id'', PStr ''7''), (''created_at'', PStr ''yesterday'')],
      Dict [(''client_id'', PInt 7), (''created_at'', PStr ''2024-01-01T02:00:00+02:00'')]]"
  let ?d = "[(''client_id'', PStr ''7''), (''created_at'', PStr ''2024-01-01T01:00:00+02:00'')]"
  have wt: "list_all is_dict (load_orders (Json_list ?rows))" by (simp add: is_dict_def)
  note T = check_request_limit_counts_younger_than_hour [OF wt, of example_lib 2 "t0 + 2 * hour" 7]
  have b: "parse_iso_datetime example_lib (dget ?d ''created_at'') = Some (t0 + 2 * hour - hour)"
    by (simp add: parse_iso_datetime_def dget_def example_lib_def)
  from T b have nb: "\<not> counted example_lib (t0 + 2 * hour - hour) (str_int 7) (Dict ?d)" by blast
  have n: "int (length (filter (counted example_lib (t0 + 2 * hour - hour) (str_int 7)) ?rows)) = 2"
    by (simp add: counted_def client_is_def dget_def str_int_def digits.simps digit_char_def
        parse_iso_datetime_def example_lib_def hour_def t0_def)
  from T n have "\<not> check_request_limit example_lib 2 (t0 + 2 * hour) (Json_list ?rows) 7" by simp
  with wt b nb n show ?thesis by simp
qed

text \<open>
  C3 as the specification words it fails: a row dated two hours after the current instant
  is not in the trailing hour, yet the code counts it and denies at ceiling 1.
\<close>

theorem check_request_limit_counts_future_records:
  "\<not> check_request_limit example_lib 1 t0
       (Json_list [Dict [(''client_id'', PStr ''7''), (''created_at'', PStr ''2024-01-01T02:00:00+02:00'')]]) 7 \<and>
   int (length (filter (spec_in_trailing_hour example_lib t0 (str_int 7))
       (load_orders (Json_list [Dict [(''client_id'', PStr ''7''), (''created_at'', PStr ''2024-01-01T02:00:00+02:00'')]]))))
     < 1"
  by (simp add: check_request_limit_def spec_in_trailing_hour_def client_is_def dget_def str_int_def
      digits.simps digit_char_def parse_iso_datetime_def example_lib_def hour_def t0_def)

text \<open>
  C4. A row of the client whose \<open>created_at\<close> does not parse is not counted, and the
  verdict is the one of the ledger without that row, so the scan goes on over the rows
  after it. An exception inside the scan (a row that is no JSON object raises one) makes
  the limiter admit.
\<close>

theorem check_request_limit_fails_open:
  "(parse_iso_datetime L (dget d ''created_at'') = None \<longrightarrow>
      \<not> counted L (now - hour) (str_int c) (Dict d) \<and>
      check_request_limit L max_requests now (Json_list (pre @ Dict d # post)) c =
      check_request_limit L max_requests now (Json_list (pre @ post)) c) \<and>
   (\<forall>e. count_loop L (now - hour) (str_int c) (load_orders disk) 0 = Inl e \<longrightarrow>
      check_request_limit L max_requests now disk c) \<and>
   (\<not> list_all is_dict (load_orders disk) \<longrightarrow>
      count_loop L (now - hour) (str_int c) (load_orders disk) 0 = Inl AttributeError)"
  by (auto simp: check_request_limit_def count_loop_append count_loop_non_dict counted_def
      split: sum.splits option.splits)


theorem check_request_limit_fails_open_witness:
  "parse_iso_datetime example_lib (dget [(''client_id'', PStr ''7''), (''created_at'', PStr ''yesterday'')] ''created_at'') = None \<and>
   \<not> counted example_lib (t0 + hour - hour) (str_int 7) (Dict [(''client_id'', PStr ''7''), (''created_at'', PStr ''yesterday'')]) \<and>
   check_request_limit example_lib 1 (t0 + hour)
     (Json_list ([Dict [(''client_id'', PStr ''7''), (''created_at'', PInt 5)]]
        @ Dict [(''client_id'', PStr ''7''), (''created_at'', PStr ''yesterday'')]
        # [Dict [(''client_id'', PStr ''7''), (''created_at'', PStr ''2024-01-01T01:00:00+02:00'')]])) 7 =
   check_request_limit example_lib 1 (t0 + hour)
     (Json_list ([Dict [(''client_id'', PStr ''7''), (''created_at'', PInt 5)]]
        @ [Dict [(''client_id'', PStr ''7''), (''created_at'', PStr ''2024-01-01T01:00:00+02:00'')]])) 7 \<and>
   \<not> check_request_limit example_lib 1 (t0 + hour)
     (Json_list ([Dict [(''client_id'', PStr ''7''), (''created_at'', PInt 5)]]
        @ Dict [(''client_id'', PStr ''7''), (''created_at'', PStr ''yesterday'')]
        # [Dict [(''client_id'', PStr ''7''), (''created_at'', PStr ''2024-01-01T01:00:00+02:00'')]])) 7 \<and>
   count_loop example_lib (t0 + hour - hour) (str_int 7)
     (load_orders (Json_list
        [Dict [(''client_id'', PStr ''7''), (''created_at'', PStr ''2024-01-01T01:00:00+02:00'')], Non_dict])) 0
     = Inl AttributeError \<and>
   check_request_limit example_lib 1 (t0 + hour)
     (Json_list [Dict [(''client_id'', PStr ''7''), (''created_at'', PStr ''2024-01-01T01:00:00+02:00'')], Non_dict]) 7"
proof -
  let ?bad = "[(''client_id'', PStr ''7''), (''created_at'', PStr ''yesterday'')]"
  let ?pre = "[Dict [(''client_id'', PStr ''7''), (''created_at'', PInt 5)]]"
  let ?post = "[Dict [(''client_id'', PStr ''7''), (''created_at'', PStr ''2024-01-01T01:00:00+02:00'')]]"
  let ?broken = "Json_list [Dict [(''client_id'', PStr ''7''), (''created_at'', PStr ''2024-01-01T01:00:00+02:00'')], Non_dict]"
  note T = check_request_limit_fails_open [of example_lib ?bad "t0 + hour" 7 1 ?pre ?post ?broken]
  have p: "parse_iso_datetime example_lib (dget ?bad ''created_at'') = None"
    by (simp add: parse_iso_datetime_def dget_def example_lib_def)
  have nd: "\<not> list_all is_dict (load_orders ?broken)" by (simp add: is_dict_def)
  from T p have a: "\<not> counted example_lib (t0 + hour - hour) (str_int 7) (Dict ?bad)"
    "check_request_limit example_lib 1 (t0 + hour) (Json_list (?pre @ Dict ?bad # ?post)) 7 =
     check_request_limit example_lib 1 (t0 + hour) (Json_list (?pre @ ?post)) 7"
    by blast+
  have den: "\<not> check_request_limit example_lib 1 (t0 + hour) (Json_list (?pre @ ?post)) 7"
    by (simp add: check_request_limit_def client_is_def dget_def str_int_def digits.simps digit_char_def
        parse_iso_datetime_def example_lib_def hour_def t0_def)
  from T nd have c: "count_loop example_lib (t0 + hour - hour) (str_int 7) (load_orders ?broken) 0 = Inl AttributeError"
    by blast
  with T have o: "check_request_limit example_lib 1 (t0 + hour) ?broken 7" by blast
  from p a den c o show ?thesis by simp
qed

section \<open>The save\<close>

text \<open>
  C5, as the code has it. The save reports success exactly when the write goes through,
  and then the file holds the new list. When the file cannot be opened it keeps its
  prior content. When the dump fails after the file was opened, the file is left cut
  off: \<open>load_orders\<close> reads it as the empty ledger.
\<close>

theorem save_orders_outcomes:
  "(snd (save_orders fault disk orders) = (fault = No_fault)) \<and>
   (fault = No_fault \<longrightarrow> fst (save_orders fault disk orders) = Json_list orders) \<and>
   (fault = Open_fails \<longrightarrow> fst (save_orders fault disk orders) = disk) \<and>
   (fault = Dump_fails \<longrightarrow> fst (save_orders fault disk orders) = Malformed \<and>
      load_orders (fst (save_orders fault disk orders)) = [])"
  by (cases fault) simp_all

theorem save_orders_outcomes_witness:
  "snd (save_orders No_fault (Json_list [Dict [(''client_id'', PStr ''7'')]])
      [Dict [(''client_id'', PStr ''7'')], Dict [(''client_id'', PStr ''8'')]]) \<and>
   fst (save_orders No_fault (Json_list [Dict [(''client_id'', PStr ''7'')]])
      [Dict [(''client_id'', PStr ''7'')], Dict [(''client_id'', PStr ''8'')]])
     = Json_list [Dict [(''client_id'', PStr ''7'')], Dict [(''client_id'', PStr ''8'')]] \<and>
   \<not> snd (save_orders Open_fails (Json_list [Dict [(''client_id'', PStr ''7'')]])
      [Dict [(''client_id'', PStr ''7'')], Dict [(''client_id'', PStr ''8'')]]) \<and>
   fst (save_orders Open_fails (Json_list [Dict [(''client_id'', PStr ''7'')]])
      [Dict [(''client_id'', PStr ''7'')], Dict [(''client_id'', PStr ''8'')]])
     = Json_list [Dict [(''client_id'', PStr ''7'')]] \<and>
   \<not> snd (save_orders Dump_fails (Json_list [Dict [(''client_id'', PStr ''7'')]])
      [Dict [(''client_id'', PStr ''7'')], Dict [(''client_id'', PStr ''8'')]]) \<and>
   load_orders (fst (save_orders Dump_fails (Json_list [Dict [(''client_id'', PStr ''7'')]])
      [Dict [(''client_id'', PStr ''7'')], Dict [(''client_id'', PStr ''8'')]])) = []"
proof -
  let ?old = "Json_list [Dict [(''client_id'', PStr ''7'')]]"
  let ?new = "[Dict [(''client_id'', PStr ''7'')], Dict [(''client_id'', PStr ''8'')]]"
  from save_orders_outcomes [of No_fault ?old ?new]
  have a: "snd (save_orders No_fault ?old ?new)" "fst (save_orders No_fault ?old ?new) = Json_list ?new"
    by blast+
  from save_orders_outcomes [of Open_fails ?old ?new]
  have b: "\<not> snd (save_orders Open_fails ?old ?new)" "fst (save_orders Open_fails ?old ?new) = ?old"
    by blast+
  from save_orders_outcomes [of Dump_fails ?old ?new]
  have c: "\<not> snd (save_orders Dump_fails ?old ?new)" "load_orders (fst (save_orders Dump_fails ?old ?new)) = []"
    by blast+
  from a b c show ?thesis by blast
qed

text \<open>
  C5 as the specification words it fails: a save whose dump fails reports failure, and
  the file no longer holds what it held before.
\<close>

theorem save_orders_failed_dump_changes_file:
  "\<not> snd (save_orders Dump_fails (Json_list [Dict [(''client_id'', PStr ''7'')]])
      [Dict [(''client_id'', PStr ''7'')], Dict [(''client_id'', PStr ''8'')]]) \<and>
   fst (save_orders Dump_fails (Json_list [Dict [(''client_id'', PStr ''7'')]])
      [Dict [(''client_id'', PStr ''7'')], Dict [(''client_id'', PStr ''8'')]])
     \<noteq> Json_list [Dict [(''client_id'', PStr ''7'')]]"
  by simp

section \<open>Status updates\<close>

lemma map_of_dset: "map_of (dset k v d) = (map_of d)(k \<mapsto> v)"
  by (induction d) (auto simp: fun_eq_iff)

lemma dset_not_Nil: "dset k v d \<noteq> []"
  by (cases d) simp_all

lemma client_is_with_status: "client_is cid (with_status st ts r) = client_is cid r"
  by (simp add: client_is_def with_status_def dget_dset_other)

lemma status_with_status: "dget (with_status st ts r) ''status'' = PStr st"
  by (simp add: with_status_def dget_dset_other dget_dset_same)

lemma stamp_with_status: "dget (with_status st ts r) ''status_updated_at'' = PStr ts"
  by (simp add: with_status_def dget_dset_same)

lemma with_status_not_Nil: "with_status st ts r \<noteq> []"
  by (simp add: with_status_def dset_not_Nil)

lemma update_loop_Some:
  "update_loop cid st ts rs = Inr (Some rs') \<Longrightarrow>
     \<exists>pre r post. rs = pre @ Dict r # post \<and> rs' = pre @ Dict (with_status st ts r) # post \<and>
        client_is cid r \<and> (\<forall>x\<in>set pre. is_dict x \<and> \<not> row_client_is cid x) \<and>
        last_order_loop cid rs = Inr (Some r)"
proof (induction rs arbitrary: rs')
  case Nil
  then show ?case by simp
next
  case (Cons x rs)
  show ?case
  proof (cases x)
    case Non_dict
    with Cons.prems show ?thesis by simp
  next
    case (Dict d)
    show ?thesis
    proof (cases "client_is cid d")
      case True
      with Dict Cons.prems have "x # rs = [] @ Dict d # rs \<and> rs' = [] @ Dict (with_status st ts d) # rs \<and>
          client_is cid d \<and> (\<forall>x\<in>set []. is_dict x \<and> \<not> row_client_is cid x) \<and>
          last_order_loop cid (x # rs) = Inr (Some d)"
        by (simp add: with_status_def)
      then show ?thesis by blast
    next
      case False
      with Dict Cons.prems obtain rest' where r: "update_loop cid st ts rs = Inr (Some rest')" "rs' = Dict d # rest'"
        by (auto split: sum.splits option.splits)
      from Cons.IH [OF r(1)] obtain pre r0 post where
        p: "rs = pre @ Dict r0 # post" "rest' = pre @ Dict (with_status st ts r0) # post"
           "client_is cid r0" "\<forall>x\<in>set pre. is_dict x \<and> \<not> row_client_is cid x"
           "last_order_loop cid rs = Inr (Some r0)"
        by blast
      from p r False Dict have "x # rs = (Dict d # pre) @ Dict r0 # post \<and>
          rs' = (Dict d # pre) @ Dict (with_status st ts r0) # post \<and> client_is cid r0 \<and>
          (\<forall>x\<in>set (Dict d # pre). is_dict x \<and> \<not> row_client_is cid x) \<and>
          last_order_loop cid (x # rs) = Inr (Some r0)"
        by (simp add: is_dict_def row_client_is_def)
      then show ?thesis by blast
    qed
  qed
qed

lemma update_loop_of_last:
  "last_order_loop cid rs = Inr (Some r) \<Longrightarrow> \<exists>rs'. update_loop cid st ts rs = Inr (Some rs')"
proof (induction rs)
  case Nil
  then show ?case by simp
next
  case (Cons x rs)
  then show ?case by (cases x) (auto split: if_splits)
qed

lemma update_loop_None:
  "last_order_loop cid rs = Inr None \<Longrightarrow> update_loop cid st ts rs = Inr None"
proof (induction rs)
  case Nil
  then show ?case by simp
next
  case (Cons x rs)
  then show ?case by (cases x) (auto split: if_splits)
qed

lemma update_order_status_committed:
  assumes "update_order_status L fault now disk c st = Inr (disk1, True)"
  shows "\<exists>r. get_last_order_for_client disk c = Inr (Some r) \<and>
           get_last_order_for_client disk1 c = Inr (Some (with_status st (now_iso_with_tz L now) r)) \<and>
           get_order_status disk1 c = Inr (PStr st) \<and>
           length (load_orders disk1) = length (load_orders disk) \<and> fault = No_fault"
proof -
  let ?ts = "now_iso_with_tz L now"
  let ?cid = "str_int c"
  from assms obtain rs' where u: "update_loop ?cid st ?ts (rev (load_orders disk)) = Inr (Some rs')"
    and s: "save_orders fault disk (rev rs') = (disk1, True)"
    by (auto simp: update_order_status_def Let_def split: sum.splits option.splits)
  from s have f: "fault = No_fault" "disk1 = Json_list (rev rs')" by (cases fault; simp)+
  from update_loop_Some [OF u] obtain pre r post where
    p: "rev (load_orders disk) = pre @ Dict r # post" "rs' = pre @ Dict (with_status st ?ts r) # post"
       "client_is ?cid r" "\<forall>x\<in>set pre. is_dict x \<and> \<not> row_client_is ?cid x"
       "last_order_loop ?cid (rev (load_orders disk)) = Inr (Some r)"
    by blast
  have g0: "get_last_order_for_client disk c = Inr (Some r)"
    using p(5) by (simp add: get_last_order_for_client_def)
  have "last_order_loop ?cid rs' = Inr (Some (with_status st ?ts r))"
    using p(2,3,4) by (simp add: last_order_loop_skip client_is_with_status)
  then have g1: "get_last_order_for_client disk1 c = Inr (Some (with_status st ?ts r))"
    using f by (simp add: get_last_order_for_client_def)
  then have g2: "get_order_status disk1 c = Inr (PStr st)"
    by (simp add: get_order_status_def with_status_not_Nil status_with_status)
  have "length rs' = length (rev (load_orders disk))" using p(1,2) by simp
  then have l: "length (load_orders disk1) = length (load_orders disk)" using f by simp
  from g0 g1 g2 l f show ?thesis by blast
qed

lemma update_order_status_succeeds:
  assumes "get_last_order_for_client disk c = Inr (Some r)"
  shows "\<exists>disk1. update_order_status L No_fault now disk c st = Inr (disk1, True)"
proof -
  from assms have "last_order_loop (str_int c) (rev (load_orders disk)) = Inr (Some r)"
    by (simp add: get_last_order_for_client_def)
  from update_loop_of_last [OF this] obtain rs' where
    "update_loop (str_int c) st (now_iso_with_tz L now) (rev (load_orders disk)) = Inr (Some rs')"
    by blast
  then show ?thesis by (simp add: update_order_status_def)
qed

lemma update_order_status_no_record:
  assumes "get_last_order_for_client disk c = Inr None"
  shows "update_order_status L fault now disk c st = Inr (disk, False)"
proof -
  from assms have "last_order_loop (str_int c) (rev (load_orders disk)) = Inr None"
    by (simp add: get_last_order_for_client_def)
  from update_loop_None [OF this] show ?thesis by (simp add: update_order_status_def)
qed

section \<open>Operator commands\<close>

lemma eff_reply_text:
  "eff_disk (reply_text delivers r disk sent) = disk"
  "eff_sent (reply_text delivers r disk sent) = (if delivers (Reply r) then sent @ [Reply r] else sent)"
  "eff_raised (reply_text delivers r disk sent) = (if delivers (Reply r) then None else Some TelegramError)"
  by (simp_all add: reply_text_def returns_def raises_def)

text \<open>
  C7. An operator command from the operator chat with both arguments, whose client id
  does not parse or names a client without a current record, leaves the orders file as
  it was, whatever the file system would do, and sends nothing but the diagnostic reply
  to the operator.
\<close>

theorem operator_commands_refuse:
  assumes "cmd_chat c = Some admin_chat_id" and "2 \<le> length (cmd_args c)"
  shows
    "(int_of_str L (strip L (hd (cmd_args c))) = None \<longrightarrow>
        eff_disk (send_requisites L admin_chat_id delivers fault now disk c) = disk \<and>
        eff_sent (send_requisites L admin_chat_id delivers fault now disk c) =
          (if delivers (Reply Client_id_must_be_number) then [Reply Client_id_must_be_number] else []) \<and>
        eff_disk (confirm_payment L admin_chat_id delivers fault now disk c) = disk \<and>
        eff_sent (confirm_payment L admin_chat_id delivers fault now disk c) =
          (if delivers (Reply Client_id_must_be_number) then [Reply Client_id_must_be_number] else [])) \<and>
     (\<forall>cid. int_of_str L (strip L (hd (cmd_args c))) = Some cid \<and>
            get_last_order_for_client disk cid = Inr None \<longrightarrow>
        eff_disk (send_requisites L admin_chat_id delivers fault now disk c) = disk \<and>
        eff_sent (send_requisites L admin_chat_id delivers fault now disk c) =
          (if delivers (Reply (No_order_for_client cid)) then [Reply (No_order_for_client cid)] else []) \<and>
        eff_disk (confirm_payment L admin_chat_id delivers fault now disk c) = disk \<and>
        eff_sent (confirm_payment L admin_chat_id delivers fault now disk c) =
          (if delivers (Reply (No_order_for_client cid)) then [Reply (No_order_for_client cid)] else []))"
  using assms
  by (simp add: send_requisites_def confirm_payment_def admin_check_def eff_reply_text
      update_order_status_no_record Let_def)

theorem operator_commands_refuse_witness:
  "cmd_chat \<lparr>cmd_chat = Some (-1002003419071), cmd_args = [''abc'', ''https://x/y'']\<rparr> = Some (-1002003419071) \<and>
   2 \<le> length (cmd_args \<lparr>cmd_chat = Some (-1002003419071), cmd_args = [''abc'', ''https://x/y'']\<rparr>) \<and>
   int_of_str example_lib (strip example_lib (hd (cmd_args
      \<lparr>cmd_chat = Some (-1002003419071), cmd_args = [''abc'', ''https://x/y'']\<rparr>))) = None \<and>
   eff_disk (send_requisites example_lib (-1002003419071) (\<lambda>x. True) No_fault t0
      (Json_list [Dict [(''client_id'', PStr ''7''), (''status'', PStr ''waiting_req'')]])
      \<lparr>cmd_chat = Some (-1002003419071), cmd_args = [''abc'', ''https://x/y'']\<rparr>)
     = Json_list [Dict [(''client_id'', PStr ''7''), (''status'', PStr ''waiting_req'')]] \<and>
   eff_sent (send_requisites example_lib (-1002003419071) (\<lambda>x. True) No_fault t0
      (Json_list [Dict [(''client_id'', PStr ''7''), (''status'', PStr ''waiting_req'')]])
      \<lparr>cmd_chat = Some (-1002003419071), cmd_args = [''abc'', ''https://x/y'']\<rparr>)
     = [Reply Client_id_must_be_number] \<and>
   int_of_str example_lib (strip example_lib (hd (cmd_args
      \<lparr>cmd_chat = Some (-1002003419071), cmd_args = [''123'', ''https://x/y'']\<rparr>))) = Some 123 \<and>
   get_last_order_for_client
      (Json_list [Dict [(''client_id'', PStr ''7''), (''status'', PStr ''waiting_req'')]]) 123 = Inr None \<and>
   eff_disk (confirm_payment example_lib (-1002003419071) (\<lambda>x. True) No_fault t0
      (Json_list [Dict [(''client_id'', PStr ''7''), (''status'', PStr ''waiting_req'')]])
      \<lparr>cmd_chat = Some (-1002003419071), cmd_args = [''123'', ''https://x/y'']\<rparr>)
     = Json_list [Dict [(''client_id'', PStr ''7''), (''status'', PStr ''waiting_req'')]] \<and>
   eff_sent (confirm_payment example_lib (-1002003419071) (\<lambda>x. True) No_fault t0
      (Json_list [Dict [(''client_id'', PStr ''7''), (''status'', PStr ''waiting_req'')]])
      \<lparr>cmd_chat = Some (-1002003419071), cmd_args = [''123'', ''https://x/y'']\<rparr>)
     = [Reply (No_order_for_client 123)]"
proof -
  let ?admin = "-1002003419071 :: int"
  let ?disk = "Json_list [Dict [(''client_id'', PStr ''7''), (''status'', PStr ''waiting_req'')]]"
  let ?c1 = "\<lparr>cmd_chat = Some ?admin, cmd_args = [''abc'', ''https://x/y'']\<rparr>"
  let ?c2 = "\<lparr>cmd_chat = Some ?admin, cmd_args = [''123'', ''https://x/y'']\<rparr>"
  have h1: "cmd_chat ?c1 = Some ?admin" "2 \<le> length (cmd_args ?c1)" by simp_all
  have h2: "cmd_chat ?c2 = Some ?admin" "2 \<le> length (cmd_args ?c2)" by simp_all
  have p1: "int_of_str example_lib (strip example_lib (hd (cmd_args ?c1))) = None"
    by (simp add: example_lib_def)
  have p2: "int_of_str example_lib (strip example_lib (hd (cmd_args ?c2))) = Some 123"
    by (simp add: example_lib_def)
  have g: "get_last_order_for_client ?disk 123 = Inr None"
    by (simp add: get_last_order_for_client_def client_is_def dget_def str_int_def digits.simps digit_char_def)
  from operator_commands_refuse [OF h1, of example_lib "\<lambda>x. True" No_fault t0 ?disk] p1
  have a: "eff_disk (send_requisites example_lib ?admin (\<lambda>x. True) No_fault t0 ?disk ?c1) = ?disk"
    "eff_sent (send_requisites example_lib ?admin (\<lambda>x. True) No_fault t0 ?disk ?c1) = [Reply Client_id_must_be_number]"
    by simp_all
  from operator_commands_refuse [OF h2, of example_lib "\<lambda>x. True" No_fault t0 ?disk] p2 g
  have b: "eff_disk (confirm_payment example_lib ?admin (\<lambda>x. True) No_fault t0 ?disk ?c2) = ?disk"
    "eff_sent (confirm_payment example_lib ?admin (\<lambda>x. True) No_fault t0 ?disk ?c2) = [Reply (No_order_for_client 123)]"
    by simp_all
  from h1 p1 a p2 g b show ?thesis by simp
qed

text \<open>
  C8. Once the status change of an operator command is saved, a notification the client's
  chat does not accept changes nothing in the file: the command leaves the saved file,
  whose current record of the client shows the new status, and tells the operator, and
  nobody else, that the message did not get through.
\<close>

theorem notification_failure_keeps_status:
  assumes "cmd_chat c = Some admin_chat_id" and "2 \<le> length (cmd_args c)"
    and "int_of_str L (strip L (hd (cmd_args c))) = Some cid"
  shows
    "(update_order_status L fault now disk cid ''waiting_payment'' = Inr (disk1, True) \<and>
      \<not> delivers (Send_message cid (Requisites (html_escape (join_spaces (tl (cmd_args c)))))) \<longrightarrow>
        eff_disk (send_requisites L admin_chat_id delivers fault now disk c) = disk1 \<and>
        get_order_status (eff_disk (send_requisites L admin_chat_id delivers fault now disk c)) cid
          = Inr (PStr ''waiting_payment'') \<and>
        eff_sent (send_requisites L admin_chat_id delivers fault now disk c) =
          (if delivers (Reply Requisites_not_delivered) then [Reply Requisites_not_delivered] else [])) \<and>
     (update_order_status L fault now disk cid ''completed'' = Inr (disk2, True) \<and>
      \<not> delivers (Send_message cid (Product_link (html_escape (strip L (cmd_args c ! 1))))) \<longrightarrow>
        eff_disk (confirm_payment L admin_chat_id delivers fault now disk c) = disk2 \<and>
        get_order_status (eff_disk (confirm_payment L admin_chat_id delivers fault now disk c)) cid
          = Inr (PStr ''completed'') \<and>
        eff_sent (confirm_payment L admin_chat_id delivers fault now disk c) =
          (if delivers (Reply Link_not_delivered) then [Reply Link_not_delivered] else []))"
proof (intro conjI impI)
  assume h: "update_order_status L fault now disk cid ''waiting_payment'' = Inr (disk1, True) \<and>
      \<not> delivers (Send_message cid (Requisites (html_escape (join_spaces (tl (cmd_args c))))))"
  with assms have e: "send_requisites L admin_chat_id delivers fault now disk c
      = reply_text delivers Requisites_not_delivered disk1 []"
    by (simp add: send_requisites_def admin_check_def Let_def)
  from h update_order_status_committed have s: "get_order_status disk1 cid = Inr (PStr ''waiting_payment'')"
    by blast
  show "eff_disk (send_requisites L admin_chat_id delivers fault now disk c) = disk1"
    by (simp add: e eff_reply_text)
  show "get_order_status (eff_disk (send_requisites L admin_chat_id delivers fault now disk c)) cid
          = Inr (PStr ''waiting_payment'')"
    by (simp add: e eff_reply_text s)
  show "eff_sent (send_requisites L admin_chat_id delivers fault now disk c) =
          (if delivers (Reply Requisites_not_delivered) then [Reply Requisites_not_delivered] else [])"
    by (simp add: e eff_reply_text)
next
  assume h: "update_order_status L fault now disk cid ''completed'' = Inr (disk2, True) \<and>
      \<not> delivers (Send_message cid (Product_link (html_escape (strip L (cmd_args c ! 1)))))"
  with assms have e: "confirm_payment L admin_chat_id delivers fault now disk c
      = reply_text delivers Link_not_delivered disk2 []"
    by (simp add: confirm_payment_def admin_check_def Let_def)
  from h update_order_status_committed have s: "get_order_status disk2 cid = Inr (PStr ''completed'')"
    by blast
  show "eff_disk (confirm_payment L admin_chat_id delivers fault now disk c) = disk2"
    by (simp add: e eff_reply_text)
  show "get_order_status (eff_disk (confirm_payment L admin_chat_id delivers fault now disk c)) cid
          = Inr (PStr ''completed'')"
    by (simp add: e eff_reply_text s)
  show "eff_sent (confirm_payment L admin_chat_id delivers fault now disk c) =
          (if delivers (Reply Link_not_delivered) then [Reply Link_not_delivered] else [])"
    by (simp add: e eff_reply_text)
qed

theorem notification_failure_keeps_status_witness:
  "cmd_chat \<lparr>cmd_chat = Some (-1002003419071), cmd_args = [''7'', ''https://x/y'']\<rparr> = Some (-1002003419071) \<and>
   2 \<le> length (cmd_args \<lparr>cmd_chat = Some (-1002003419071), cmd_args = [''7'', ''https://x/y'']\<rparr>) \<and>
   int_of_str example_lib (strip example_lib (hd (cmd_args
      \<lparr>cmd_chat = Some (-1002003419071), cmd_args = [''7'', ''https://x/y'']\<rparr>))) = Some 7 \<and>
   update_order_status example_lib No_fault t0
      (Json_list [Dict [(''client_id'', PStr ''7''), (''status'', PStr ''waiting_confirm'')]]) 7 ''waiting_payment''
     = Inr (Json_list [Dict [(''client_id'', PStr ''7''), (''status'', PStr ''waiting_payment''),
                             (''status_updated_at'', PStr ''2024-01-01T00:00:00+02:00'')]], True) \<and>
   \<not> (\<lambda>x. case x of Send_message a b \<Rightarrow> False | _ \<Rightarrow> True)
       (Send_message 7 (Requisites (html_escape (join_spaces (tl (cmd_args
          \<lparr>cmd_chat = Some (-1002003419071), cmd_args = [''7'', ''https://x/y'']\<rparr>)))))) \<and>
   eff_disk (send_requisites example_lib (-1002003419071)
      (\<lambda>x. case x of Send_message a b \<Rightarrow> False | _ \<Rightarrow> True) No_fault t0
      (Json_list [Dict [(''client_id'', PStr ''7''), (''status'', PStr ''waiting_confirm'')]])
      \<lparr>cmd_chat = Some (-1002003419071), cmd_args = [''7'', ''https://x/y'']\<rparr>)
     = Json_list [Dict [(''client_id'', PStr ''7''), (''status'', PStr ''waiting_payment''),
                        (''status_updated_at'', PStr ''2024-01-01T00:00:00+02:00'')]] \<and>
   eff_sent (send_requisites example_lib (-1002003419071)
      (\<lambda>x. case x of Send_message a b \<Rightarrow> False | _ \<Rightarrow> True) No_fault t0
      (Json_list [Dict [(''client_id'', PStr ''7''), (''status'', PStr ''waiting_confirm'')]])
      \<lparr>cmd_chat = Some (-1002003419071), cmd_args = [''7'', ''https://x/y'']\<rparr>)
     = [Reply Requisites_not_delivered] \<and>
   update_order_status example_lib No_fault t0
      (Json_list [Dict [(''client_id'', PStr ''7''), (''status'', PStr ''waiting_confirm'')]]) 7 ''completed''
     = Inr (Json_list [Dict [(''client_id'', PStr ''7''), (''status'', PStr ''completed''),
                             (''status_updated_at'', PStr ''2024-01-01T00:00:00+02:00'')]], True) \<and>
   get_order_status (eff_disk (confirm_payment example_lib (-1002003419071)
      (\<lambda>x. case x of Send_message a b \<Rightarrow> False | _ \<Rightarrow> True) No_fault t0
      (Json_list [Dict [(''client_id'', PStr ''7''), (''status'', PStr ''waiting_confirm'')]])
      \<lparr>cmd_chat = Some (-1002003419071), cmd_args = [''7'', ''https://x/y'']\<rparr>)) 7
     = Inr (PStr ''completed'') \<and>
   eff_sent (confirm_payment example_lib (-1002003419071)
      (\<lambda>x. case x of Send_message a b \<Rightarrow> False | _ \<Rightarrow> True) No_fault t0
      (Json_list [Dict [(''client_id'', PStr ''7''), (''status'', PStr ''waiting_confirm'')]])
      \<lparr>cmd_chat = Some (-1002003419071), cmd_args = [''7'', ''https://x/y'']\<rparr>)
     = [Reply Link_not_delivered]"
proof -
  let ?admin = "-1002003419071 :: int"
  let ?c = "\<lparr>cmd_chat = Some ?admin, cmd_args = [''7'', ''https://x/y'']\<rparr>"
  let ?disk = "Json_list [Dict [(''client_id'', PStr ''7''), (''status'', PStr ''waiting_confirm'')]]"
  let ?d1 = "Json_list [Dict [(''client_id'', PStr ''7''), (''status'', PStr ''waiting_payment''),
                             (''status_updated_at'', PStr ''2024-01-01T00:00:00+02:00'')]]"
  let ?d2 = "Json_list [Dict [(''client_id'', PStr ''7''), (''status'', PStr ''completed''),
                             (''status_updated_at'', PStr ''2024-01-01T00:00:00+02:00'')]]"
  let ?del = "\<lambda>x. case x of Send_message a b \<Rightarrow> False | _ \<Rightarrow> True"
  have h1: "cmd_chat ?c = Some ?admin" and h2: "2 \<le> length (cmd_args ?c)" by simp_all
  have h3: "int_of_str example_lib (strip example_lib (hd (cmd_args ?c))) = Some 7"
    by (simp add: example_lib_def)
  have u1: "update_order_status example_lib No_fault t0 ?disk 7 ''waiting_payment'' = Inr (?d1, True)"
    by (simp add: update_order_status_def client_is_def dget_def str_int_def digits.simps digit_char_def
        now_iso_with_tz_def example_lib_def)
  have u2: "update_order_status example_lib No_fault t0 ?disk 7 ''completed'' = Inr (?d2, True)"
    by (simp add: update_order_status_def client_is_def dget_def str_int_def digits.simps digit_char_def
        now_iso_with_tz_def example_lib_def)
  have n1: "\<not> ?del (Send_message 7 (Requisites (html_escape (join_spaces (tl (cmd_args ?c))))))"
    and n2: "\<not> ?del (Send_message 7 (Product_link (html_escape (strip example_lib (cmd_args ?c ! 1)))))"
    by simp_all
  note T = notification_failure_keeps_status [OF h1 h2 h3, of No_fault t0 ?disk ?d1 ?del ?d2]
  note T1 = T [THEN conjunct1, THEN mp, OF conjI [OF u1 n1]]
  note T2 = T [THEN conjunct2, THEN mp, OF conjI [OF u2 n2]]
  from T1 have a1: "eff_disk (send_requisites example_lib ?admin ?del No_fault t0 ?disk ?c) = ?d1"
    by blast
  from T1 have "eff_sent (send_requisites example_lib ?admin ?del No_fault t0 ?disk ?c)
      = (if ?del (Reply Requisites_not_delivered) then [Reply Requisites_not_delivered] else [])"
    by blast
  then have a2: "eff_sent (send_requisites example_lib ?admin ?del No_fault t0 ?disk ?c)
      = [Reply Requisites_not_delivered]"
    by simp
  from T2 have b1: "get_order_status (eff_disk (confirm_payment example_lib ?admin ?del No_fault t0 ?disk ?c)) 7
       = Inr (PStr ''completed'')"
    by blast
  from T2 have "eff_sent (confirm_payment example_lib ?admin ?del No_fault t0 ?disk ?c)
      = (if ?del (Reply Link_not_delivered) then [Reply Link_not_delivered] else [])"
    by blast
  then have b2: "eff_sent (confirm_payment example_lib ?admin ?del No_fault t0 ?disk ?c) = [Reply Link_not_delivered]"
    by simp
  from h1 h2 h3 u1 n1 a1 a2 u2 b1 b2 show ?thesis by blast
qed

lemma send_requisites_delivered:
  assumes "cmd_chat c = Some admin_chat_id" and "2 \<le> length (cmd_args c)"
    and "int_of_str L (strip L (hd (cmd_args c))) = Some cid"
    and "update_order_status L fault now disk cid ''waiting_payment'' = Inr (disk1, True)"
    and "delivers (Send_message cid (Requisites (html_escape (join_spaces (tl (cmd_args c))))))"
    and "delivers (Reply (Requisites_sent cid))"
  shows "send_requisites L admin_chat_id delivers fault now disk c =
     returns disk1 [Send_message cid (Requisites (html_escape (join_spaces (tl (cmd_args c))))),
                    Reply (Requisites_sent cid)]"
  using assms by (simp add: send_requisites_def admin_check_def Let_def)

text \<open>
  C9. For a client with a current record, two \<open>send_requisites\<close> calls in a row, with a
  file system that saves, a transport that delivers and a clock that does not step back
  between them, both notify the client and confirm to the operator; after each the
  current record is the same record with status \<open>waiting_payment\<close>, and the instant its
  \<open>status_updated_at\<close> denotes after the second call is not earlier than after the first.
\<close>

theorem send_requisites_twice:
  assumes "cmd_chat c = Some admin_chat_id" and "2 \<le> length (cmd_args c)"
    and "int_of_str L (strip L (hd (cmd_args c))) = Some cid"
    and "get_last_order_for_client disk cid = Inr (Some r)"
    and "delivers (Send_message cid (Requisites (html_escape (join_spaces (tl (cmd_args c))))))"
    and "delivers (Reply (Requisites_sent cid))"
    and "t1 \<le> t2"
    and "parse_iso_datetime L (PStr (isoformat L t1)) = Some t1"
    and "parse_iso_datetime L (PStr (isoformat L t2)) = Some t2"
  shows
    "(let e1 = send_requisites L admin_chat_id delivers No_fault t1 disk c;
          e2 = send_requisites L admin_chat_id delivers No_fault t2 (eff_disk e1) c;
          ok = [Send_message cid (Requisites (html_escape (join_spaces (tl (cmd_args c))))),
                Reply (Requisites_sent cid)];
          r1 = with_status ''waiting_payment'' (isoformat L t1) r;
          r2 = with_status ''waiting_payment'' (isoformat L t2) r1
      in eff_sent e1 = ok \<and> eff_raised e1 = None \<and> eff_sent e2 = ok \<and> eff_raised e2 = None \<and>
         get_last_order_for_client (eff_disk e1) cid = Inr (Some r1) \<and>
         get_last_order_for_client (eff_disk e2) cid = Inr (Some r2) \<and>
         get_order_status (eff_disk e1) cid = Inr (PStr ''waiting_payment'') \<and>
         get_order_status (eff_disk e2) cid = Inr (PStr ''waiting_payment'') \<and>
         (\<exists>u1 u2. parse_iso_datetime L (dget r1 ''status_updated_at'') = Some u1 \<and>
                  parse_iso_datetime L (dget r2 ''status_updated_at'') = Some u2 \<and> u1 \<le> u2))"
proof -
  let ?ok = "[Send_message cid (Requisites (html_escape (join_spaces (tl (cmd_args c))))),
                Reply (Requisites_sent cid)]"
  let ?r1 = "with_status ''waiting_payment'' (isoformat L t1) r"
  let ?r2 = "with_status ''waiting_payment'' (isoformat L t2) ?r1"
  from update_order_status_succeeds [OF assms(4)] obtain disk1 where
    u1: "update_order_status L No_fault t1 disk cid ''waiting_payment'' = Inr (disk1, True)" by blast
  from update_order_status_committed [OF u1] assms(4)
  have g1: "get_last_order_for_client disk1 cid = Inr (Some ?r1)"
    and s1: "get_order_status disk1 cid = Inr (PStr ''waiting_payment'')"
    by (auto simp: now_iso_with_tz_def)
  have e1: "send_requisites L admin_chat_id delivers No_fault t1 disk c = returns disk1 ?ok"
    by (rule send_requisites_delivered [OF assms(1,2,3) u1 assms(5,6)])
  from update_order_status_succeeds [OF g1] obtain disk2 where
    u2: "update_order_status L No_fault t2 disk1 cid ''waiting_payment'' = Inr (disk2, True)" by blast
  from update_order_status_committed [OF u2] g1
  have g2: "get_last_order_for_client disk2 cid = Inr (Some ?r2)"
    and s2: "get_order_status disk2 cid = Inr (PStr ''waiting_payment'')"
    by (auto simp: now_iso_with_tz_def)
  have e2: "send_requisites L admin_chat_id delivers No_fault t2 disk1 c = returns disk2 ?ok"
    by (rule send_requisites_delivered [OF assms(1,2,3) u2 assms(5,6)])
  have m: "\<exists>u1 u2. parse_iso_datetime L (dget ?r1 ''status_updated_at'') = Some u1 \<and>
                  parse_iso_datetime L (dget ?r2 ''status_updated_at'') = Some u2 \<and> u1 \<le> u2"
    using assms(7,8,9) by (simp add: stamp_with_status)
  from e1 e2 g1 g2 s1 s2 m show ?thesis
    by (simp add: Let_def returns_def)
qed

theorem send_requisites_twice_witness:
  "cmd_chat \<lparr>cmd_chat = Some (-1002003419071), cmd_args = [''7'', ''card'', ''4444'']\<rparr> = Some (-1002003419071) \<and>
   2 \<le> length (cmd_args \<lparr>cmd_chat = Some (-1002003419071), cmd_args = [''7'', ''card'', ''4444'']\<rparr>) \<and>
   int_of_str example_lib (strip example_lib (hd (cmd_args
      \<lparr>cmd_chat = Some (-1002003419071), cmd_args = [''7'', ''card'', ''4444'']\<rparr>))) = Some 7 \<and>
   get_last_order_for_client
      (Json_list [Dict [(''client_id'', PStr ''7''), (''status'', PStr ''waiting_confirm'')],
                  Dict [(''client_id'', PStr ''8''), (''status'', PStr ''waiting_req'')]]) 7
     = Inr (Some [(''client_id'', PStr ''7''), (''status'', PStr ''waiting_confirm'')]) \<and>
   t0 \<le> t0 + hour \<and>
   parse_iso_datetime example_lib (PStr (isoformat example_lib t0)) = Some t0 \<and>
   parse_iso_datetime example_lib (PStr (isoformat example_lib (t0 + hour))) = Some (t0 + hour) \<and>
   eff_sent (send_requisites example_lib (-1002003419071) (\<lambda>x. True) No_fault t0
      (Json_list [Dict [(''client_id'', PStr ''7''), (''status'', PStr ''waiting_confirm'')],
                  Dict [(''client_id'', PStr ''8''), (''status'', PStr ''waiting_req'')]])
      \<lparr>cmd_chat = Some (-1002003419071), cmd_args = [''7'', ''card'', ''4444'']\<rparr>)
     = [Send_message 7 (Requisites ''card 4444''), Reply (Requisites_sent 7)] \<and>
   get_order_status (eff_disk (send_requisites example_lib (-1002003419071) (\<lambda>x. True) No_fault t0
      (Json_list [Dict [(''client_id'', PStr ''7''), (''status'', PStr ''waiting_confirm'')],
                  Dict [(''client_id'', PStr ''8''), (''status'', PStr ''waiting_req'')]])
      \<lparr>cmd_chat = Some (-1002003419071), cmd_args = [''7'', ''card'', ''4444'']\<rparr>)) 7
     = Inr (PStr ''waiting_payment'') \<and>
   eff_sent (send_requisites example_lib (-1002003419071) (\<lambda>x. True) No_fault (t0 + hour)
      (eff_disk (send_requisites example_lib (-1002003419071) (\<lambda>x. True) No_fault t0
         (Json_list [Dict [(''client_id'', PStr ''7''), (''status'', PStr ''waiting_confirm'')],
                     Dict [(''client_id'', PStr ''8''), (''status'', PStr ''waiting_req'')]])
         \<lparr>cmd_chat = Some (-1002003419071), cmd_args = [''7'', ''card'', ''4444'']\<rparr>))
      \<lparr>cmd_chat = Some (-1002003419071), cmd_args = [''7'', ''card'', ''4444'']\<rparr>)
     = [Send_message 7 (Requisites ''card 4444''), Reply (Requisites_sent 7)] \<and>
   get_last_order_for_client (eff_disk (send_requisites example_lib (-1002003419071) (\<lambda>x. True) No_fault (t0 + hour)
      (eff_disk (send_requisites example_lib (-1002003419071) (\<lambda>x. True) No_fault t0
         (Json_list [Dict [(''client_id'', PStr ''7''), (''status'', PStr ''waiting_confirm'')],
                     Dict [(''client_id'', PStr ''8''), (''status'', PStr ''waiting_req'')]])
         \<lparr>cmd_chat = Some (-1002003419071), cmd_args = [''7'', ''card'', ''4444'']\<rparr>))
      \<lparr>cmd_chat = Some (-1002003419071), cmd_args = [''7'', ''card'', ''4444'']\<rparr>)) 7
     = Inr (Some [(''client_id'', PStr ''7''), (''status'', PStr ''waiting_payment''),
                  (''status_updated_at'', PStr ''2024-01-01T01:00:00+02:00'')])"
proof -
  let ?admin = "-1002003419071 :: int"
  let ?c = "\<lparr>cmd_chat = Some ?admin, cmd_args = [''7'', ''card'', ''4444'']\<rparr>"
  let ?r = "[(''client_id'', PStr ''7''), (''status'', PStr ''waiting_confirm'')]"
  let ?disk = "Json_list [Dict ?r, Dict [(''client_id'', PStr ''8''), (''status'', PStr ''waiting_req'')]]"
  have h1: "cmd_chat ?c = Some ?admin" and h2: "2 \<le> length (cmd_args ?c)" by simp_all
  have h3: "int_of_str example_lib (strip example_lib (hd (cmd_args ?c))) = Some 7"
    by (simp add: example_lib_def)
  have h4: "get_last_order_for_client ?disk 7 = Inr (Some ?r)"
    by (simp add: get_last_order_for_client_def client_is_def dget_def str_int_def digits.simps digit_char_def)
  have esc: "html_escape (join_spaces (tl (cmd_args ?c))) = ''card 4444''"
    by (simp add: html_escape_def html_escape_char_def)
  have h5: "(\<lambda>x. True) (Send_message 7 (Requisites (html_escape (join_spaces (tl (cmd_args ?c))))))"
    and h6: "(\<lambda>x. True) (Reply (Requisites_sent 7))" by simp_all
  have h7: "t0 \<le> t0 + hour" by (simp add: hour_def)
  have h8: "parse_iso_datetime example_lib (PStr (isoformat example_lib t0)) = Some t0"
    by (simp add: parse_iso_datetime_def example_lib_def)
  have h9: "parse_iso_datetime example_lib (PStr (isoformat example_lib (t0 + hour))) = Some (t0 + hour)"
    by (simp add: parse_iso_datetime_def example_lib_def hour_def)
  note T = send_requisites_twice [OF h1 h2 h3 h4 h5 h6 h7 h8 h9]
  have w: "with_status ''waiting_payment'' (isoformat example_lib (t0 + hour))
             (with_status ''waiting_payment'' (isoformat example_lib t0) ?r)
     = [(''client_id'', PStr ''7''), (''status'', PStr ''waiting_payment''),
        (''status_updated_at'', PStr ''2024-01-01T01:00:00+02:00'')]"
    by (simp add: with_status_def example_lib_def hour_def)
  from T have c: "eff_sent (send_requisites example_lib ?admin (\<lambda>x. True) No_fault t0 ?disk ?c)
       = [Send_message 7 (Requisites ''card 4444''), Reply (Requisites_sent 7)]"
    "get_order_status (eff_disk (send_requisites example_lib ?admin (\<lambda>x. True) No_fault t0 ?disk ?c)) 7
       = Inr (PStr ''waiting_payment'')"
    "eff_sent (send_requisites example_lib ?admin (\<lambda>x. True) No_fault (t0 + hour)
        (eff_disk (send_requisites example_lib ?admin (\<lambda>x. True) No_fault t0 ?disk ?c)) ?c)
       = [Send_message 7 (Requisites ''card 4444''), Reply (Requisites_sent 7)]"
    "get_last_order_for_client (eff_disk (send_requisites example_lib ?admin (\<lambda>x. True) No_fault (t0 + hour)
        (eff_disk (send_requisites example_lib ?admin (\<lambda>x. True) No_fault t0 ?disk ?c)) ?c)) 7
       = Inr (Some [(''client_id'', PStr ''7''), (''status'', PStr ''waiting_payment''),
                    (''status_updated_at'', PStr ''2024-01-01T01:00:00+02:00'')])"
    unfolding Let_def esc w by blast+
  from h1 h2 h3 h4 h7 h8 h9 c show ?thesis by blast
qed

section \<open>Buyer handlers\<close>

lemma dget_new_request:
  "dget (new_request L now c u k f d) ''client_id'' = PStr (str_int c)"
  "dget (new_request L now c u k f d) ''status'' = PStr ''waiting_req''"
  "dget (new_request L now c u k f d) ''created_at'' = PStr (now_iso_with_tz L now)"
  "dget (new_request L now c u k f d) ''tariff_key'' = opt_val k"
  "dget (new_request L now c u k f d) ''fio'' = opt_val f"
  "dget (new_request L now c u k f d) ''dob'' = opt_val d"
  by (simp_all add: new_request_def dget_def)

lemma add_request_outcomes:
  "add_request L No_fault now disk c u k f d = (Json_list (load_orders disk @ [Dict (new_request L now c u k f d)]), True)"
  "add_request L Open_fails now disk c u k f d = (disk, False)"
  "add_request L Dump_fails now disk c u k f d = (Malformed, False)"
  by (simp_all add: add_request_def)

text \<open>
  C6. In state \<open>awaiting_dob\<close> the text is stored as the date of birth and the order is
  appended. The append succeeds exactly when the save goes through. When it fails, the
  state does not become \<open>awaiting_photo\<close>, the ledger read back is the old one or empty
  (no row is added), and, the retry message being delivered, the session is cleared, so
  its state is none. When it succeeds, the state is \<open>awaiting_photo\<close> and the ledger is
  the old one with one more row at its end: status \<open>waiting_req\<close>, the client's id, the
  staged tariff key and name, and the text as date of birth.
\<close>

theorem handle_user_input_awaiting_dob:
  assumes "map_of ud ''order_state'' = Some AWAITING_DOB"
  shows
    "(let (ud', e) = handle_user_input L delivers fault now ud disk m;
          new_row = new_request L now (from_id m) (username_of m) (map_of ud ''selected_tariff_key'')
                  (map_of ud ''fio'') (Some (strip L (msg_text m)))
      in snd (add_request L fault now disk (from_id m) (username_of m) (map_of ud ''selected_tariff_key'')
                  (map_of ud ''fio'') (Some (strip L (msg_text m)))) = (fault = No_fault) \<and>
         (fault \<noteq> No_fault \<longrightarrow>
            map_of ud' ''order_state'' \<noteq> Some AWAITING_PHOTO \<and>
            (load_orders (eff_disk e) = load_orders disk \<or> load_orders (eff_disk e) = []) \<and>
            (delivers (Reply Save_failed_retry_later) \<longrightarrow>
               map_of ud' ''order_state'' = None \<and> ud' = [] \<and>
               eff_sent e = [Reply Save_failed_retry_later] \<and> eff_raised e = None)) \<and>
         (fault = No_fault \<longrightarrow>
            map_of ud' ''order_state'' = Some AWAITING_PHOTO \<and>
            load_orders (eff_disk e) = load_orders disk @ [Dict new_row] \<and>
            dget new_row ''client_id'' = PStr (str_int (from_id m)) \<and>
            dget new_row ''status'' = PStr ''waiting_req'' \<and>
            dget new_row ''tariff_key'' = opt_val (map_of ud ''selected_tariff_key'') \<and>
            dget new_row ''tariff_text'' =
              (case map_of ud ''selected_tariff_key'' of
                 None \<Rightarrow> PNone
               | Some k \<Rightarrow> if k \<noteq> [] then opt_val (map_of TARIFFS k) else PNone) \<and>
            dget new_row ''fio'' = opt_val (map_of ud ''fio'') \<and>
            dget new_row ''dob'' = PStr (strip L (msg_text m))))"
proof (cases fault)
  case No_fault
  with assms show ?thesis
    by (simp add: handle_user_input_def Let_def AWAITING_DOB_def AWAITING_FIO_def AWAITING_PHOTO_def
        map_of_dset add_request_outcomes eff_reply_text dget_new_request opt_val_def)
      (simp add: new_request_def dget_def)
next
  case Open_fails
  with assms show ?thesis
    by (simp add: handle_user_input_def Let_def AWAITING_DOB_def AWAITING_FIO_def AWAITING_PHOTO_def
        map_of_dset add_request_outcomes eff_reply_text)
next
  case Dump_fails
  with assms show ?thesis
    by (simp add: handle_user_input_def Let_def AWAITING_DOB_def AWAITING_FIO_def AWAITING_PHOTO_def
        map_of_dset add_request_outcomes eff_reply_text)
qed

theorem handle_user_input_awaiting_dob_witness:
  "fst (handle_user_input example_lib (\<lambda>x. True) No_fault t0
       [(''selected_tariff_key'', ''30_days''), (''order_state'', ''awaiting_fio'')] Missing
       \<lparr>from_id = 7, from_username = Some ''jane'', msg_text = ''Jane Doe'', photo = [], document = None\<rparr>)
     = [(''selected_tariff_key'', ''30_days''), (''order_state'', ''awaiting_dob''), (''fio'', ''Jane Doe'')] \<and>
   map_of [(''selected_tariff_key'', ''30_days''), (''order_state'', ''awaiting_dob''), (''fio'', ''Jane Doe'')]
       ''order_state'' = Some AWAITING_DOB \<and>
   map_of (fst (handle_user_input example_lib (\<lambda>x. True) No_fault t0
       [(''selected_tariff_key'', ''30_days''), (''order_state'', ''awaiting_dob''), (''fio'', ''Jane Doe'')] Missing
       \<lparr>from_id = 7, from_username = Some ''jane'', msg_text = ''01.01.1990'', photo = [], document = None\<rparr>))
       ''order_state'' = Some AWAITING_PHOTO \<and>
   load_orders (eff_disk (snd (handle_user_input example_lib (\<lambda>x. True) No_fault t0
       [(''selected_tariff_key'', ''30_days''), (''order_state'', ''awaiting_dob''), (''fio'', ''Jane Doe'')] Missing
       \<lparr>from_id = 7, from_username = Some ''jane'', msg_text = ''01.01.1990'', photo = [], document = None\<rparr>)))
     = [Dict [(''client_id'', PStr ''7''), (''username'', PStr ''jane''), (''status'', PStr ''waiting_req''),
              (''created_at'', PStr ''2024-01-01T00:00:00+02:00''), (''tariff_key'', PStr ''30_days''),
              (''tariff_text'', PStr (''30 '' @ [CHR 0xD0, CHR 0xB4, CHR 0xD0, CHR 0xBD, CHR 0xD1, CHR 0x96, CHR 0xD0, CHR 0xB2] @ '' '' @
                 [CHR 0xE2, CHR 0x80, CHR 0x94] @ '' 70'' @ [CHR 0xE2, CHR 0x82, CHR 0xB4])), (''fio'', PStr ''Jane Doe''),
              (''dob'', PStr ''01.01.1990'')]] \<and>
   Dump_fails \<noteq> No_fault \<and>
   fst (handle_user_input example_lib (\<lambda>x. True) Dump_fails t0
       [(''selected_tariff_key'', ''30_days''), (''order_state'', ''awaiting_dob''), (''fio'', ''Jane Doe'')]
       (Json_list [Dict [(''client_id'', PStr ''8'')]])
       \<lparr>from_id = 7, from_username = Some ''jane'', msg_text = ''01.01.1990'', photo = [], document = None\<rparr>)
     = [] \<and>
   eff_sent (snd (handle_user_input example_lib (\<lambda>x. True) Dump_fails t0
       [(''selected_tariff_key'', ''30_days''), (''order_state'', ''awaiting_dob''), (''fio'', ''Jane Doe'')]
       (Json_list [Dict [(''client_id'', PStr ''8'')]])
       \<lparr>from_id = 7, from_username = Some ''jane'', msg_text = ''01.01.1990'', photo = [], document = None\<rparr>))
     = [Reply Save_failed_retry_later] \<and>
   load_orders (eff_disk (snd (handle_user_input example_lib (\<lambda>x. True) Dump_fails t0
       [(''selected_tariff_key'', ''30_days''), (''order_state'', ''awaiting_dob''), (''fio'', ''Jane Doe'')]
       (Json_list [Dict [(''client_id'', PStr ''8'')]])
       \<lparr>from_id = 7, from_username = Some ''jane'', msg_text = ''01.01.1990'', photo = [], document = None\<rparr>)))
     = []"
proof -
  let ?ud0 = "[(''selected_tariff_key'', ''30_days''), (''order_state'', ''awaiting_fio'')]"
  let ?ud1 = "[(''selected_tariff_key'', ''30_days''), (''order_state'', ''awaiting_dob''), (''fio'', ''Jane Doe'')]"
  let ?m1 = "\<lparr>from_id = 7, from_username = Some ''jane'', msg_text = ''Jane Doe'', photo = [], document = None\<rparr>"
  let ?m2 = "\<lparr>from_id = 7, from_username = Some ''jane'', msg_text = ''01.01.1990'', photo = [], document = None\<rparr>"
  let ?old = "Json_list [Dict [(''client_id'', PStr ''8'')]]"
  let ?yes = "\<lambda>x::outbound. True"
  have s1: "fst (handle_user_input example_lib ?yes No_fault t0 ?ud0 Missing ?m1) = ?ud1"
    by (simp add: handle_user_input_def AWAITING_FIO_def AWAITING_DOB_def example_lib_def)
  have h: "map_of ?ud1 ''order_state'' = Some AWAITING_DOB" by (simp add: AWAITING_DOB_def)
  note T1 = handle_user_input_awaiting_dob
    [OF h, of example_lib ?yes No_fault t0 Missing ?m2, unfolded Let_def case_prod_beta]
  note T2 = handle_user_input_awaiting_dob
    [OF h, of example_lib ?yes Dump_fails t0 ?old ?m2, unfolded Let_def case_prod_beta]
  have nr: "new_request example_lib t0 (from_id ?m2) (username_of ?m2) (map_of ?ud1 ''selected_tariff_key'')
        (map_of ?ud1 ''fio'') (Some (strip example_lib (msg_text ?m2)))
      = [(''client_id'', PStr ''7''), (''username'', PStr ''jane''), (''status'', PStr ''waiting_req''),
         (''created_at'', PStr ''2024-01-01T00:00:00+02:00''), (''tariff_key'', PStr ''30_days''),
         (''tariff_text'', PStr (''30 '' @ [CHR 0xD0, CHR 0xB4, CHR 0xD0, CHR 0xBD, CHR 0xD1, CHR 0x96, CHR 0xD0, CHR 0xB2] @ '' '' @
                 [CHR 0xE2, CHR 0x80, CHR 0x94] @ '' 70'' @ [CHR 0xE2, CHR 0x82, CHR 0xB4])), (''fio'', PStr ''Jane Doe''),
         (''dob'', PStr ''01.01.1990'')]"
    by (simp add: new_request_def username_of_def str_int_def digits.simps digit_char_def
        now_iso_with_tz_def example_lib_def opt_val_def TARIFFS_def)
  from T1 have a1: "map_of (fst (handle_user_input example_lib ?yes No_fault t0 ?ud1 Missing ?m2))
       ''order_state'' = Some AWAITING_PHOTO"
    by blast
  from T1 have "load_orders (eff_disk (snd (handle_user_input example_lib ?yes No_fault t0 ?ud1 Missing ?m2)))
      = load_orders Missing @ [Dict (new_request example_lib t0 (from_id ?m2) (username_of ?m2)
          (map_of ?ud1 ''selected_tariff_key'') (map_of ?ud1 ''fio'') (Some (strip example_lib (msg_text ?m2))))]"
    by blast
  then have a2: "load_orders (eff_disk (snd (handle_user_input example_lib ?yes No_fault t0 ?ud1 Missing ?m2)))
      = [Dict [(''client_id'', PStr ''7''), (''username'', PStr ''jane''), (''status'', PStr ''waiting_req''),
         (''created_at'', PStr ''2024-01-01T00:00:00+02:00''), (''tariff_key'', PStr ''30_days''),
         (''tariff_text'', PStr (''30 '' @ [CHR 0xD0, CHR 0xB4, CHR 0xD0, CHR 0xBD, CHR 0xD1, CHR 0x96, CHR 0xD0, CHR 0xB2] @ '' '' @
                 [CHR 0xE2, CHR 0x80, CHR 0x94] @ '' 70'' @ [CHR 0xE2, CHR 0x82, CHR 0xB4])), (''fio'', PStr ''Jane Doe''),
         (''dob'', PStr ''01.01.1990'')]]"
    unfolding nr by simp
  have f: "Dump_fails \<noteq> No_fault" by simp
  from T2 f have b: "fst (handle_user_input example_lib ?yes Dump_fails t0 ?ud1 ?old ?m2) = []"
    "eff_sent (snd (handle_user_input example_lib ?yes Dump_fails t0 ?ud1 ?old ?m2)) = [Reply Save_failed_retry_later]"
    by blast+
  have b3: "load_orders (eff_disk (snd (handle_user_input example_lib ?yes Dump_fails t0 ?ud1 ?old ?m2))) = []"
    by (simp add: handle_user_input_def AWAITING_FIO_def AWAITING_DOB_def Let_def map_of_dset
        add_request_outcomes eff_reply_text)
  from s1 h a1 a2 f b b3 show ?thesis by blast
qed

lemma dget_Nil: "dget [] k = PNone"
  by (simp add: dget_def)

lemma get_order_status_of_last:
  "get_last_order_for_client disk c = Inr (Some r) \<Longrightarrow> dget r ''status'' = PStr st \<Longrightarrow>
     get_order_status disk c = Inr (PStr st)"
  by (cases r) (simp_all add: get_order_status_def dget_def)

lemma handle_id_photo_forwarded:
  assumes "get_last_order_for_client disk (from_id m) = Inr (Some r)"
    and "dget r ''status'' = PStr ''waiting_req''"
    and "dget r ''fio'' = PStr fio" and "fio \<noteq> []"
    and "dget r ''dob'' = PStr dob" and "dob \<noteq> []"
    and "dget r ''tariff_text'' = PStr tariff" and "tariff \<noteq> []"
    and "photo m \<noteq> []"
  shows "handle_id_photo L delivers fault now ud disk m =
    (let forward = Send_photo (last (photo m))
           (New_order (from_id m)
              (if username_of m \<noteq> no_username then html_escape (''@'' @ username_of m) else no_username)
              (html_escape tariff) (html_escape fio) (html_escape dob))
     in if \<not> delivers forward then (ud, reply_text delivers Photo_forward_failed_retry disk [])
        else (case update_order_status L fault now disk (from_id m) ''waiting_payment'' of
                Inl e \<Rightarrow> (ud, raises e disk [forward])
              | Inr (disk1, ok) \<Rightarrow> (ud, reply_text delivers Photo_received disk1 [forward])))"
proof -
  from assms(2) have "r \<noteq> []" by (auto simp: dget_Nil)
  with assms show ?thesis
    by (simp add: handle_id_photo_def Let_def py_or_def)
qed

text \<open>
  C2, as the code has it. In state \<open>awaiting_photo\<close>, with a current record of status
  \<open>waiting_req\<close> whose name, date of birth and tariff text are non-empty strings, a
  message with a photo whose forward the operator channel accepts, the save going
  through: the largest photo size is forwarded once, with the order's data, and nothing
  else goes to the operator channel; the current record becomes the same record with
  status \<open>waiting_payment\<close>; the session is left as it was, so its state stays
  \<open>awaiting_photo\<close>.
\<close>

theorem handle_all_media_id_photo:
  assumes "map_of ud ''order_state'' = Some AWAITING_PHOTO"
    and "get_last_order_for_client disk (from_id m) = Inr (Some r)"
    and "dget r ''status'' = PStr ''waiting_req''"
    and "dget r ''fio'' = PStr fio" and "fio \<noteq> []"
    and "dget r ''dob'' = PStr dob" and "dob \<noteq> []"
    and "dget r ''tariff_text'' = PStr tariff" and "tariff \<noteq> []"
    and "photo m \<noteq> []"
    and "delivers (Send_photo (last (photo m))
           (New_order (from_id m)
              (if username_of m \<noteq> no_username then html_escape (''@'' @ username_of m) else no_username)
              (html_escape tariff) (html_escape fio) (html_escape dob)))"
  shows
    "(let (ud', e) = handle_all_media L delivers No_fault now ud disk m;
          forward = Send_photo (last (photo m))
           (New_order (from_id m)
              (if username_of m \<noteq> no_username then html_escape (''@'' @ username_of m) else no_username)
              (html_escape tariff) (html_escape fio) (html_escape dob))
      in eff_sent e = forward # (if delivers (Reply Photo_received) then [Reply Photo_received] else []) \<and>
         get_last_order_for_client (eff_disk e) (from_id m)
           = Inr (Some (with_status ''waiting_payment'' (now_iso_with_tz L now) r)) \<and>
         get_order_status (eff_disk e) (from_id m) = Inr (PStr ''waiting_payment'') \<and>
         ud' = ud \<and> map_of ud' ''order_state'' = Some AWAITING_PHOTO)"
proof -
  let ?forward = "Send_photo (last (photo m))
           (New_order (from_id m)
              (if username_of m \<noteq> no_username then html_escape (''@'' @ username_of m) else no_username)
              (html_escape tariff) (html_escape fio) (html_escape dob))"
  from update_order_status_succeeds [OF assms(2)] obtain disk1 where
    u: "update_order_status L No_fault now disk (from_id m) ''waiting_payment'' = Inr (disk1, True)"
    by blast
  from update_order_status_committed [OF u] assms(2)
  have g: "get_last_order_for_client disk1 (from_id m)
        = Inr (Some (with_status ''waiting_payment'' (now_iso_with_tz L now) r))"
    and s: "get_order_status disk1 (from_id m) = Inr (PStr ''waiting_payment'')"
    by auto
  have st: "get_order_status disk (from_id m) = Inr (PStr ''waiting_req'')"
    by (rule get_order_status_of_last [OF assms(2,3)])
  have "handle_all_media L delivers No_fault now ud disk m = handle_id_photo L delivers No_fault now ud disk m"
    using st assms(1) by (simp add: handle_all_media_def Let_def)
  also have "\<dots> = (ud, reply_text delivers Photo_received disk1 [?forward])"
    using handle_id_photo_forwarded [OF assms(2-10), of L delivers No_fault now ud] assms(11) u
    by (simp add: Let_def)
  finally show ?thesis
    using g s assms(1) by (simp add: Let_def eff_reply_text)
qed

theorem handle_all_media_id_photo_witness:
  "map_of jane_session ''order_state'' = Some AWAITING_PHOTO \<and>
   get_last_order_for_client (Json_list [Dict jane_order]) (from_id jane_photo) = Inr (Some jane_order) \<and>
   dget jane_order ''status'' = PStr ''waiting_req'' \<and>
   dget jane_order ''fio'' = PStr ''Jane Doe'' \<and>
   dget jane_order ''dob'' = PStr ''01.01.1990'' \<and>
   dget jane_order ''tariff_text'' = PStr thirty_days_text \<and>
   photo jane_photo = [''small'', ''large''] \<and>
   eff_sent (snd (handle_all_media example_lib (\<lambda>x. True) No_fault (t0 + hour) jane_session
       (Json_list [Dict jane_order]) jane_photo))
     = [Send_photo ''large'' (New_order 7 ''@jane'' thirty_days_text ''Jane Doe'' ''01.01.1990''),
        Reply Photo_received] \<and>
   get_last_order_for_client (eff_disk (snd (handle_all_media example_lib (\<lambda>x. True) No_fault (t0 + hour)
       jane_session (Json_list [Dict jane_order]) jane_photo))) 7
     = Inr (Some (jane_order [2 := (''status'', PStr ''waiting_payment'')]
                   @ [(''status_updated_at'', PStr ''2024-01-01T01:00:00+02:00'')])) \<and>
   get_order_status (eff_disk (snd (handle_all_media example_lib (\<lambda>x. True) No_fault (t0 + hour)
       jane_session (Json_list [Dict jane_order]) jane_photo))) 7
     = Inr (PStr ''waiting_payment'') \<and>
   fst (handle_all_media example_lib (\<lambda>x. True) No_fault (t0 + hour) jane_session
       (Json_list [Dict jane_order]) jane_photo) = jane_session"
proof -
  let ?disk = "Json_list [Dict jane_order]"
  let ?yes = "\<lambda>x::outbound. True"
  let ?res = "handle_all_media example_lib ?yes No_fault (t0 + hour) jane_session ?disk jane_photo"
  have tt: "thirty_days_text \<noteq> []" by (simp add: thirty_days_text_def)
  have h1: "map_of jane_session ''order_state'' = Some AWAITING_PHOTO"
    by (simp add: jane_session_def AWAITING_PHOTO_def)
  have h2: "get_last_order_for_client ?disk (from_id jane_photo) = Inr (Some jane_order)"
    by (simp add: get_last_order_for_client_def client_is_def dget_def str_int_def digits.simps digit_char_def
        jane_order_def jane_photo_def)
  have h3: "dget jane_order ''status'' = PStr ''waiting_req''" by (simp add: dget_def jane_order_def)
  have h4: "dget jane_order ''fio'' = PStr ''Jane Doe''" and h5: "''Jane Doe'' \<noteq> []"
    by (simp_all add: dget_def jane_order_def)
  have h6: "dget jane_order ''dob'' = PStr ''01.01.1990''" and h7: "''01.01.1990'' \<noteq> []"
    by (simp_all add: dget_def jane_order_def)
  have h8: "dget jane_order ''tariff_text'' = PStr thirty_days_text" by (simp add: dget_def jane_order_def)
  have h10: "photo jane_photo \<noteq> []" and ph: "photo jane_photo = [''small'', ''large'']"
    by (simp_all add: jane_photo_def)
  have h11: "?yes (Send_photo (last (photo jane_photo))
           (New_order (from_id jane_photo)
              (if username_of jane_photo \<noteq> no_username then html_escape (''@'' @ username_of jane_photo)
               else no_username)
              (html_escape thirty_days_text) (html_escape ''Jane Doe'') (html_escape ''01.01.1990'')))"
    by simp
  note T = handle_all_media_id_photo [OF h1 h2 h3 h4 h5 h6 h7 h8 tt h10 h11, of example_lib "t0 + hour",
      unfolded Let_def case_prod_beta]
  have f: "Send_photo (last (photo jane_photo))
           (New_order (from_id jane_photo)
              (if username_of jane_photo \<noteq> no_username then html_escape (''@'' @ username_of jane_photo)
               else no_username)
              (html_escape thirty_days_text) (html_escape ''Jane Doe'') (html_escape ''01.01.1990''))
        = Send_photo ''large'' (New_order 7 ''@jane'' thirty_days_text ''Jane Doe'' ''01.01.1990'')"
    by (simp add: jane_photo_def username_of_def no_username_def html_escape_def html_escape_char_def
        thirty_days_text_def)
  have w: "with_status ''waiting_payment'' (now_iso_with_tz example_lib (t0 + hour)) jane_order
      = jane_order [2 := (''status'', PStr ''waiting_payment'')]
          @ [(''status_updated_at'', PStr ''2024-01-01T01:00:00+02:00'')]"
    by (simp add: with_status_def now_iso_with_tz_def example_lib_def hour_def jane_order_def)
  have i7: "from_id jane_photo = 7" by (simp add: jane_photo_def)
  from T have "eff_sent (snd ?res)
      = Send_photo ''large'' (New_order 7 ''@jane'' thirty_days_text ''Jane Doe'' ''01.01.1990'')
          # (if ?yes (Reply Photo_received) then [Reply Photo_received] else [])"
    unfolding f by blast
  then have c1: "eff_sent (snd ?res)
      = [Send_photo ''large'' (New_order 7 ''@jane'' thirty_days_text ''Jane Doe'' ''01.01.1990''),
         Reply Photo_received]"
    by simp
  from T have c2: "get_last_order_for_client (eff_disk (snd ?res)) 7
      = Inr (Some (jane_order [2 := (''status'', PStr ''waiting_payment'')]
                   @ [(''status_updated_at'', PStr ''2024-01-01T01:00:00+02:00'')]))"
    unfolding w i7 by blast
  from T have c3: "get_order_status (eff_disk (snd ?res)) 7 = Inr (PStr ''waiting_payment'')"
    unfolding i7 by blast
  from T have c4: "fst ?res = jane_session" by blast
  from h1 h2 h3 h4 h6 h8 ph c1 c2 c3 c4 show ?thesis by blast
qed

text \<open>
  C2 as the specification words it fails in its last part: after the photo is forwarded
  and the status saved, the session state is still \<open>awaiting_photo\<close>, not none.
\<close>

theorem handle_all_media_id_photo_keeps_session_state:
  "map_of jane_session ''order_state'' = Some AWAITING_PHOTO \<and>
   get_order_status (Json_list [Dict jane_order]) (from_id jane_photo) = Inr (PStr ''waiting_req'') \<and>
   truthy (dget jane_order ''fio'') \<and> truthy (dget jane_order ''dob'') \<and>
   truthy (dget jane_order ''tariff_text'') \<and>
   photo jane_photo \<noteq> [] \<and>
   eff_sent (snd (handle_all_media example_lib (\<lambda>x. True) No_fault (t0 + hour) jane_session
       (Json_list [Dict jane_order]) jane_photo))
     = [Send_photo ''large'' (New_order 7 ''@jane'' thirty_days_text ''Jane Doe'' ''01.01.1990''),
        Reply Photo_received] \<and>
   get_order_status (eff_disk (snd (handle_all_media example_lib (\<lambda>x. True) No_fault (t0 + hour)
       jane_session (Json_list [Dict jane_order]) jane_photo))) (from_id jane_photo)
     = Inr (PStr ''waiting_payment'') \<and>
   map_of (fst (handle_all_media example_lib (\<lambda>x. True) No_fault (t0 + hour) jane_session
       (Json_list [Dict jane_order]) jane_photo)) ''order_state'' = Some ''awaiting_photo'' \<and>
   map_of (fst (handle_all_media example_lib (\<lambda>x. True) No_fault (t0 + hour) jane_session
       (Json_list [Dict jane_order]) jane_photo)) ''order_state'' \<noteq> None"
  by (simp add: handle_all_media_def handle_id_photo_def get_order_status_def get_last_order_for_client_def
        client_is_def dget_def str_int_def digits.simps digit_char_def AWAITING_PHOTO_def Let_def py_or_def
        username_of_def no_username_def html_escape_def html_escape_char_def update_order_status_def
        now_iso_with_tz_def example_lib_def hour_def t0_def eff_reply_text
        jane_order_def jane_session_def jane_photo_def thirty_days_text_def)

lemma handle_id_photo_changes:
  "eff_disk (snd (handle_id_photo L delivers fault now ud disk m)) \<noteq> disk \<Longrightarrow>
     \<exists>x\<in>set (eff_sent (snd (handle_id_photo L delivers fault now ud disk m))). is_forward x"
  by (auto simp: handle_id_photo_def Let_def eff_reply_text raises_def returns_def is_forward_def
      split: sum.splits option.splits if_splits prod.splits)

lemma handle_receipt_changes:
  "eff_disk (snd (handle_receipt L delivers fault now ud disk m)) \<noteq> disk \<Longrightarrow>
     \<exists>x\<in>set (eff_sent (snd (handle_receipt L delivers fault now ud disk m))). is_forward x"
  by (auto simp: handle_receipt_def Let_def eff_reply_text raises_def returns_def is_forward_def
      split: sum.splits option.splits if_splits prod.splits)

lemma handle_all_media_changes:
  "eff_disk (snd (handle_all_media L delivers fault now ud disk m)) \<noteq> disk \<Longrightarrow>
     \<exists>x\<in>set (eff_sent (snd (handle_all_media L delivers fault now ud disk m))). is_forward x"
  using handle_id_photo_changes [of L delivers fault now ud disk m]
    handle_receipt_changes [of L delivers fault now ud disk m]
  by (auto simp: handle_all_media_def Let_def eff_reply_text raises_def split: sum.splits if_splits)

lemma handle_all_media_receipt:
  assumes "get_order_status disk (from_id m) = Inr (PStr ''waiting_payment'') \<or>
           get_order_status disk (from_id m) = Inr (PStr ''waiting_confirm'')"
  shows "handle_all_media L delivers fault now ud disk m = handle_receipt L delivers fault now ud disk m"
  using assms by (auto simp: handle_all_media_def Let_def)

text \<open>
  C10. The media handler changes the orders file only when the operator channel accepted
  a forward. When the channel refuses the forward of the order's photo (state
  \<open>awaiting_photo\<close>, current record \<open>waiting_req\<close> and complete), or of a receipt sent
  as a photo or as a document (status \<open>waiting_payment\<close> or \<open>waiting_confirm\<close>), the file
  and the session are left as they were and the only message sent is the retry reply to
  the buyer.
\<close>

theorem media_forward_failure_leaves_ledger:
  "(let res = handle_all_media L delivers fault now ud disk m;
        id_forward = Send_photo (last (photo m))
          (New_order (from_id m)
             (if username_of m \<noteq> no_username then html_escape (''@'' @ username_of m) else no_username)
             (html_escape tariff) (html_escape fio) (html_escape dob));
        receipt = Receipt (from_id m) (html_escape (''@'' @ username_of m));
        paying = (get_order_status disk (from_id m) = Inr (PStr ''waiting_payment'') \<or>
                  get_order_status disk (from_id m) = Inr (PStr ''waiting_confirm''));
        untouched = (\<lambda>retry. fst res = ud \<and> eff_disk (snd res) = disk \<and>
                       eff_sent (snd res) = (if delivers (Reply retry) then [Reply retry] else []))
    in (eff_disk (snd res) \<noteq> disk \<longrightarrow> (\<exists>x\<in>set (eff_sent (snd res)). is_forward x)) \<and>
       (map_of ud ''order_state'' = Some AWAITING_PHOTO \<and>
        get_last_order_for_client disk (from_id m) = Inr (Some r) \<and>
        dget r ''status'' = PStr ''waiting_req'' \<and>
        dget r ''fio'' = PStr fio \<and> fio \<noteq> [] \<and> dget r ''dob'' = PStr dob \<and> dob \<noteq> [] \<and>
        dget r ''tariff_text'' = PStr tariff \<and> tariff \<noteq> [] \<and>
        photo m \<noteq> [] \<and> \<not> delivers id_forward \<longrightarrow> untouched Photo_forward_failed_retry) \<and>
       (paying \<and> photo m \<noteq> [] \<and> \<not> delivers (Send_photo (last (photo m)) receipt) \<longrightarrow>
          untouched Receipt_forward_failed_retry) \<and>
       (paying \<and> photo m = [] \<and> document m = Some file_id \<and> \<not> delivers (Send_document file_id receipt) \<longrightarrow>
          untouched Receipt_forward_failed_retry))"
proof -
  let ?res = "handle_all_media L delivers fault now ud disk m"
  let ?idf = "Send_photo (last (photo m))
          (New_order (from_id m)
             (if username_of m \<noteq> no_username then html_escape (''@'' @ username_of m) else no_username)
             (html_escape tariff) (html_escape fio) (html_escape dob))"
  let ?receipt = "Receipt (from_id m) (html_escape (''@'' @ username_of m))"
  let ?paying = "get_order_status disk (from_id m) = Inr (PStr ''waiting_payment'') \<or>
                  get_order_status disk (from_id m) = Inr (PStr ''waiting_confirm'')"
  have a: "eff_disk (snd ?res) \<noteq> disk \<longrightarrow> (\<exists>x\<in>set (eff_sent (snd ?res)). is_forward x)"
    using handle_all_media_changes by blast
  have b: "?res = (ud, reply_text delivers Photo_forward_failed_retry disk [])"
    if h: "map_of ud ''order_state'' = Some AWAITING_PHOTO \<and>
        get_last_order_for_client disk (from_id m) = Inr (Some r) \<and>
        dget r ''status'' = PStr ''waiting_req'' \<and>
        dget r ''fio'' = PStr fio \<and> fio \<noteq> [] \<and> dget r ''dob'' = PStr dob \<and> dob \<noteq> [] \<and>
        dget r ''tariff_text'' = PStr tariff \<and> tariff \<noteq> [] \<and>
        photo m \<noteq> [] \<and> \<not> delivers ?idf"
  proof -
    from h have st: "get_order_status disk (from_id m) = Inr (PStr ''waiting_req'')"
      using get_order_status_of_last by blast
    with h have "?res = handle_id_photo L delivers fault now ud disk m"
      by (simp add: handle_all_media_def Let_def)
    also from h have "\<dots> = (ud, reply_text delivers Photo_forward_failed_retry disk [])"
      using handle_id_photo_forwarded [of disk m r fio dob tariff L delivers fault now ud]
      by (simp add: Let_def)
    finally show ?thesis .
  qed
  have c: "?res = (ud, reply_text delivers Receipt_forward_failed_retry disk [])"
    if h: "?paying \<and> photo m \<noteq> [] \<and> \<not> delivers (Send_photo (last (photo m)) ?receipt)"
  proof -
    from h have "?res = handle_receipt L delivers fault now ud disk m"
      using handle_all_media_receipt by blast
    also from h have "\<dots> = (ud, reply_text delivers Receipt_forward_failed_retry disk [])"
      by (simp add: handle_receipt_def Let_def)
    finally show ?thesis .
  qed
  have d: "?res = (ud, reply_text delivers Receipt_forward_failed_retry disk [])"
    if h: "?paying \<and> photo m = [] \<and> document m = Some file_id \<and> \<not> delivers (Send_document file_id ?receipt)"
  proof -
    from h have "?res = handle_receipt L delivers fault now ud disk m"
      using handle_all_media_receipt by blast
    also from h have "\<dots> = (ud, reply_text delivers Receipt_forward_failed_retry disk [])"
      by (simp add: handle_receipt_def Let_def)
    finally show ?thesis .
  qed
  from a b c d show ?thesis
    unfolding Let_def by (auto simp: eff_reply_text)
qed

theorem media_forward_failure_leaves_ledger_witness:
  "map_of jane_session ''order_state'' = Some AWAITING_PHOTO \<and>
   get_last_order_for_client (Json_list [Dict jane_order]) (from_id jane_photo) = Inr (Some jane_order) \<and>
   dget jane_order ''status'' = PStr ''waiting_req'' \<and>
   photo jane_photo \<noteq> [] \<and>
   \<not> (\<lambda>x. case x of Reply r \<Rightarrow> True | _ \<Rightarrow> False)
       (Send_photo ''large'' (New_order 7 ''@jane'' thirty_days_text ''Jane Doe'' ''01.01.1990'')) \<and>
   handle_all_media example_lib (\<lambda>x. case x of Reply r \<Rightarrow> True | _ \<Rightarrow> False) No_fault (t0 + hour)
       jane_session (Json_list [Dict jane_order]) jane_photo
     = (jane_session,
        \<lparr>eff_disk = Json_list [Dict jane_order], eff_sent = [Reply Photo_forward_failed_retry],
         eff_raised = None\<rparr>) \<and>
   get_order_status (Json_list [Dict (jane_order [2 := (''status'', PStr ''waiting_payment'')])])
       (from_id jane_photo) = Inr (PStr ''waiting_payment'') \<and>
   handle_all_media example_lib (\<lambda>x. case x of Reply r \<Rightarrow> True | _ \<Rightarrow> False) No_fault (t0 + hour)
       jane_session (Json_list [Dict (jane_order [2 := (''status'', PStr ''waiting_payment'')])]) jane_photo
     = (jane_session,
        \<lparr>eff_disk = Json_list [Dict (jane_order [2 := (''status'', PStr ''waiting_payment'')])],
         eff_sent = [Reply Receipt_forward_failed_retry], eff_raised = None\<rparr>) \<and>
   get_order_status (Json_list [Dict (jane_order [2 := (''status'', PStr ''waiting_confirm'')])])
       (from_id (jane_photo \<lparr>photo := [], document := Some ''receipt.pdf''\<rparr>)) = Inr (PStr ''waiting_confirm'') \<and>
   handle_all_media example_lib (\<lambda>x. case x of Reply r \<Rightarrow> True | _ \<Rightarrow> False) No_fault (t0 + hour)
       jane_session (Json_list [Dict (jane_order [2 := (''status'', PStr ''waiting_confirm'')])])
       (jane_photo \<lparr>photo := [], document := Some ''receipt.pdf''\<rparr>)
     = (jane_session,
        \<lparr>eff_disk = Json_list [Dict (jane_order [2 := (''status'', PStr ''waiting_confirm'')])],
         eff_sent = [Reply Receipt_forward_failed_retry], eff_raised = None\<rparr>)"
proof -
  let ?no = "\<lambda>x. case x of Reply r \<Rightarrow> True | _ \<Rightarrow> False"
  let ?d1 = "Json_list [Dict jane_order]"
  let ?d2 = "Json_list [Dict (jane_order [2 := (''status'', PStr ''waiting_payment'')])]"
  let ?d3 = "Json_list [Dict (jane_order [2 := (''status'', PStr ''waiting_confirm'')])]"
  let ?doc = "jane_photo \<lparr>photo := [], document := Some ''receipt.pdf''\<rparr>"
  let ?r1 = "handle_all_media example_lib ?no No_fault (t0 + hour) jane_session ?d1 jane_photo"
  let ?r2 = "handle_all_media example_lib ?no No_fault (t0 + hour) jane_session ?d2 jane_photo"
  let ?r3 = "handle_all_media example_lib ?no No_fault (t0 + hour) jane_session ?d3 ?doc"
  have h1: "map_of jane_session ''order_state'' = Some AWAITING_PHOTO"
    by (simp add: jane_session_def AWAITING_PHOTO_def)
  have h2: "get_last_order_for_client ?d1 (from_id jane_photo) = Inr (Some jane_order)"
    by (simp add: get_last_order_for_client_def client_is_def dget_def str_int_def digits.simps digit_char_def
        jane_order_def jane_photo_def)
  have h3: "dget jane_order ''status'' = PStr ''waiting_req''"
    "dget jane_order ''fio'' = PStr ''Jane Doe''" "dget jane_order ''dob'' = PStr ''01.01.1990''"
    "dget jane_order ''tariff_text'' = PStr thirty_days_text" "thirty_days_text \<noteq> []"
    by (simp_all add: dget_def jane_order_def thirty_days_text_def)
  have h4: "photo jane_photo \<noteq> []" by (simp add: jane_photo_def)
  have f: "Send_photo (last (photo jane_photo))
           (New_order (from_id jane_photo)
              (if username_of jane_photo \<noteq> no_username then html_escape (''@'' @ username_of jane_photo)
               else no_username)
              (html_escape thirty_days_text) (html_escape ''Jane Doe'') (html_escape ''01.01.1990''))
        = Send_photo ''large'' (New_order 7 ''@jane'' thirty_days_text ''Jane Doe'' ''01.01.1990'')"
    by (simp add: jane_photo_def username_of_def no_username_def html_escape_def html_escape_char_def
        thirty_days_text_def)
  have n1: "\<not> ?no (Send_photo ''large'' (New_order 7 ''@jane'' thirty_days_text ''Jane Doe'' ''01.01.1990''))"
    by simp
  note T1 = media_forward_failure_leaves_ledger [where L = example_lib and delivers = ?no and fault = No_fault
      and now = "t0 + hour" and ud = jane_session and disk = ?d1 and m = jane_photo and r = jane_order
      and fio = "''Jane Doe''" and dob = "''01.01.1990''" and tariff = thirty_days_text,
      unfolded Let_def f]
  from T1 h1 h2 h3 h4 n1 have "fst ?r1 = jane_session \<and> eff_disk (snd ?r1) = ?d1 \<and>
      eff_sent (snd ?r1) = (if ?no (Reply Photo_forward_failed_retry) then [Reply Photo_forward_failed_retry] else [])"
    by blast
  then have c1: "fst ?r1 = jane_session" "eff_disk (snd ?r1) = ?d1"
    "eff_sent (snd ?r1) = [Reply Photo_forward_failed_retry]"
    by simp_all
  have e1: "eff_raised (snd ?r1) = None"
    by (simp add: handle_all_media_def handle_id_photo_def get_order_status_def get_last_order_for_client_def
        client_is_def dget_def str_int_def digits.simps digit_char_def AWAITING_PHOTO_def Let_def py_or_def
        username_of_def no_username_def html_escape_def html_escape_char_def eff_reply_text
        jane_order_def jane_session_def jane_photo_def thirty_days_text_def)
  have p2: "get_order_status ?d2 (from_id jane_photo) = Inr (PStr ''waiting_payment'')"
    by (simp add: get_order_status_def get_last_order_for_client_def client_is_def dget_def str_int_def
        digits.simps digit_char_def jane_order_def jane_photo_def)
  have n2: "\<not> ?no (Send_photo (last (photo jane_photo))
        (Receipt (from_id jane_photo) (html_escape (''@'' @ username_of jane_photo))))"
    by simp
  note T2 = media_forward_failure_leaves_ledger [where L = example_lib and delivers = ?no and fault = No_fault
      and now = "t0 + hour" and ud = jane_session and disk = ?d2 and m = jane_photo, unfolded Let_def]
  from T2 p2 h4 n2 have "fst ?r2 = jane_session \<and> eff_disk (snd ?r2) = ?d2 \<and>
      eff_sent (snd ?r2) = (if ?no (Reply Receipt_forward_failed_retry) then [Reply Receipt_forward_failed_retry] else [])"
    by blast
  then have c2: "fst ?r2 = jane_session" "eff_disk (snd ?r2) = ?d2"
    "eff_sent (snd ?r2) = [Reply Receipt_forward_failed_retry]"
    by simp_all
  have e2: "eff_raised (snd ?r2) = None"
    by (simp add: handle_all_media_def handle_receipt_def get_order_status_def get_last_order_for_client_def
        client_is_def dget_def str_int_def digits.simps digit_char_def AWAITING_PHOTO_def Let_def
        eff_reply_text jane_order_def jane_session_def jane_photo_def)
  have p3: "get_order_status ?d3 (from_id ?doc) = Inr (PStr ''waiting_confirm'')"
    by (simp add: get_order_status_def get_last_order_for_client_def client_is_def dget_def str_int_def
        digits.simps digit_char_def jane_order_def jane_photo_def)
  have q3: "photo ?doc = []" "document ?doc = Some ''receipt.pdf''" by simp_all
  have n3: "\<not> ?no (Send_document ''receipt.pdf'' (Receipt (from_id ?doc) (html_escape (''@'' @ username_of ?doc))))"
    by simp
  note T3 = media_forward_failure_leaves_ledger [where L = example_lib and delivers = ?no and fault = No_fault
      and now = "t0 + hour" and ud = jane_session and disk = ?d3 and m = ?doc and file_id = "''receipt.pdf''",
      unfolded Let_def]
  from T3 p3 q3 n3 have "fst ?r3 = jane_session \<and> eff_disk (snd ?r3) = ?d3 \<and>
      eff_sent (snd ?r3) = (if ?no (Reply Receipt_forward_failed_retry) then [Reply Receipt_forward_failed_retry] else [])"
    by blast
  then have c3: "fst ?r3 = jane_session" "eff_disk (snd ?r3) = ?d3"
    "eff_sent (snd ?r3) = [Reply Receipt_forward_failed_retry]"
    by simp_all
  have e3: "eff_raised (snd ?r3) = None"
    by (simp add: handle_all_media_def handle_receipt_def get_order_status_def get_last_order_for_client_def
        client_is_def dget_def str_int_def digits.simps digit_char_def AWAITING_PHOTO_def Let_def
        eff_reply_text jane_order_def jane_session_def jane_photo_def)
  have r1: "?r1 = (jane_session, \<lparr>eff_disk = ?d1, eff_sent = [Reply Photo_forward_failed_retry], eff_raised = None\<rparr>)"
    using c1 e1 by (cases ?r1) (simp add: effects.equality)
  have r2: "?r2 = (jane_session, \<lparr>eff_disk = ?d2, eff_sent = [Reply Receipt_forward_failed_retry], eff_raised = None\<rparr>)"
    using c2 e2 by (cases ?r2) (simp add: effects.equality)
  have r3: "?r3 = (jane_session, \<lparr>eff_disk = ?d3, eff_sent = [Reply Receipt_forward_failed_retry], eff_raised = None\<rparr>)"
    using c3 e3 by (cases ?r3) (simp add: effects.equality)
  from h1 h2 h3(1) h4 n1 r1 p2 r2 p3 r3 show ?thesis by blast
qed

end
